theory Spec2Isabelle
  imports Complex_Main "HOL-Library.Word" "HOL-Library.Sublist"
begin

section \<open>The ransomware detector of \<^verbatim>\<open>detector_ransomware_SOLUCION.py\<close>\<close>

text \<open>
  The development embeds the functions of the detector: \<^verbatim>\<open>calcular_entropia\<close>,
  \<^verbatim>\<open>extension_sospechosa\<close>, \<^verbatim>\<open>analizar_fichero\<close>, \<^verbatim>\<open>recorrer_directorio\<close>,
  \<^verbatim>\<open>mover_a_cuarentena\<close>, \<^verbatim>\<open>mostrar_informe\<close> and the entry point.

  Conventions of the embedding.
  \<^item> A Python \<^verbatim>\<open>float\<close> is a \<open>real\<close>: rounding is not modelled.
  \<^item> A character is a code point below 256, so a file name is a \<open>string\<close>; the tables
    for \<^verbatim>\<open>str.lower\<close> and for the class \<^verbatim>\<open>\w\<close> are Python's tables on that range.
  \<^item> A path is the list of its components below \<^verbatim>\<open>/\<close>; a component holds no \<^verbatim>\<open>/\<close>.
    \<^verbatim>\<open>str(Path)\<close> and \<^verbatim>\<open>Path(str)\<close> are inverse on such paths and are left out.
  \<^item> The operating system is a collaborator. The tree that \<^verbatim>\<open>os.walk\<close> reads is a
    datatype; the table that \<^verbatim>\<open>exists\<close>, \<^verbatim>\<open>mkdir\<close> and \<^verbatim>\<open>shutil.move\<close> act on is a
    record of maps and sets. Of the errors of the system, the table has a missing entry,
    a regular file where a directory is needed, a directory that cannot be searched, a
    read-only directory and an unreadable file. Symbolic links, a second volume, the
    move of a whole directory, input/output errors and a full disk are not modelled.
  \<^item> An exception is a value: a function that can raise returns \<open>os_error + 'a\<close>.
\<close>

subsection \<open>Data\<close>

type_synonym byte = "8 word"

type_synonym path = "string list"

datatype os_error =
    FileNotFoundError
  | PermissionError
  | NotADirectoryError
  | FileExistsError
  | IsADirectoryError
  | ShutilError

text \<open>
  A regular file, as the detector can observe it: \<open>lectura\<close> is what opening it and
  reading all of it gives (the bytes, or the \<^verbatim>\<open>OSError\<close> raised), \<open>st_size\<close> what
  \<^verbatim>\<open>stat().st_size\<close> gives.
\<close>

record fichero =
  lectura :: "os_error + byte list"
  st_size :: "os_error + int"

text \<open>What lies at a path of the scanned tree; \<open>Inaccesible\<close> is a directory that cannot be listed.\<close>

datatype nodo =
    Fich fichero
  | Carpeta "(string \<times> nodo) list"
  | Inaccesible

text \<open>The dictionary returned by \<^verbatim>\<open>analizar_fichero\<close>.\<close>

record hallazgo =
  ruta :: path
  tamano :: int
  entropia :: "real option"
  motivos :: "string list"

text \<open>
  The file table the quarantine step acts on: the regular files by path, the set of
  directories, the directories that cannot be searched (every access to a path below one
  of them raises \<^verbatim>\<open>PermissionError\<close>) and the read-only directories (no entry can be
  added to one of them or removed from it).
\<close>

record mundo =
  ficheros :: "path \<rightharpoonup> fichero"
  carpetas :: "path set"
  sin_busqueda :: "path set"
  solo_lectura :: "path set"

text \<open>What \<^verbatim>\<open>os.stat\<close> finds at a path.\<close>

datatype tipo = Regular | Directorio

text \<open>
  The state of \<^verbatim>\<open>mover_a_cuarentena\<close>: the list object \<^verbatim>\<open>sospechosos\<close> that the caller
  shares with it, the file table, the list \<^verbatim>\<open>destinos\<close> built so far, and the lines
  printed so far (source and exception of each failed move).
\<close>

record salida =
  lista :: "hallazgo list"
  final :: mundo
  destinos :: "path list"
  impreso :: "(path \<times> os_error) list"

subsection \<open>Configuration\<close>

definition RUTA_BASE :: path where
  "RUTA_BASE = [''Compartido'']"

definition RUTA_CUARENTENA :: path where
  "RUTA_CUARENTENA = [''cuarentena_ransomware'']"

definition MAX_BYTES_LECTURA :: nat where
  "MAX_BYTES_LECTURA = 64 * 1024"

definition UMBRAL_ENTROPIA :: real where
  "UMBRAL_ENTROPIA = 7.5"

definition EXCLUIDAS :: "string list" where
  "EXCLUIDAS = [''.jpg'', ''.jpeg'', ''.png'', ''.gif'']"

subsection \<open>Strings and paths\<close>

text \<open>\<^verbatim>\<open>str.lower\<close> on one code point below 256.\<close>

definition minuscula :: "char \<Rightarrow> char" where
  "minuscula c =
     (let n = (of_char c :: nat)
      in if (65 \<le> n \<and> n \<le> 90) \<or> (192 \<le> n \<and> n \<le> 222 \<and> n \<noteq> 215)
         then char_of (n + 32) else c)"

definition lower :: "string \<Rightarrow> string" where
  "lower s = map minuscula s"

text \<open>The class \<^verbatim>\<open>\w\<close> of a \<^verbatim>\<open>str\<close> pattern, on code points below 256.\<close>

definition es_palabra :: "char \<Rightarrow> bool" where
  "es_palabra c =
     (let n = (of_char c :: nat)
      in (48 \<le> n \<and> n \<le> 57) \<or> (65 \<le> n \<and> n \<le> 90) \<or> n = 95 \<or> (97 \<le> n \<and> n \<le> 122)
         \<or> n = 170 \<or> n = 178 \<or> n = 179 \<or> n = 181 \<or> n = 185 \<or> n = 186
         \<or> (188 \<le> n \<and> n \<le> 190) \<or> (192 \<le> n \<and> n \<le> 214) \<or> (216 \<le> n \<and> n \<le> 246)
         \<or> 248 \<le> n)"

text \<open>\<^verbatim>\<open>Path.name\<close>: the last component, empty for the root.\<close>

definition nombre :: "path \<Rightarrow> string" where
  "nombre p = (if p = [] then [] else last p)"

text \<open>\<^verbatim>\<open>path / name\<close> for a name without \<^verbatim>\<open>/\<close>; joining the empty name gives the path back.\<close>

definition unir :: "path \<Rightarrow> string \<Rightarrow> path" where
  "unir p n = (if n = [] then p else p @ [n])"

text \<open>\<^verbatim>\<open>str.rfind('.')\<close>: the index of the last dot, if there is one.\<close>

fun rfind_punto :: "string \<Rightarrow> nat option" where
  "rfind_punto [] = None"
| "rfind_punto (c # cs) =
     (case rfind_punto cs of
        Some i \<Rightarrow> Some (Suc i)
      | None \<Rightarrow> if c = CHR ''.'' then Some 0 else None)"

text \<open>
  \<^verbatim>\<open>PurePath.suffix\<close> and \<^verbatim>\<open>PurePath.stem\<close> of a name: the name is cut at its last dot
  when that dot is neither the first nor the last character.
\<close>

definition suffix_de :: "string \<Rightarrow> string" where
  "suffix_de n =
     (case rfind_punto n of
        Some i \<Rightarrow> if 0 < i \<and> i < length n - 1 then drop i n else []
      | None \<Rightarrow> [])"

definition stem_de :: "string \<Rightarrow> string" where
  "stem_de n =
     (case rfind_punto n of
        Some i \<Rightarrow> if 0 < i \<and> i < length n - 1 then take i n else n
      | None \<Rightarrow> n)"

subsection \<open>\<^verbatim>\<open>calcular_entropia\<close>\<close>

text \<open>\<^verbatim>\<open>open("rb")\<close> followed by \<^verbatim>\<open>read(n)\<close>: at most \<open>n\<close> bytes from the start.\<close>

definition leer :: "fichero \<Rightarrow> nat \<Rightarrow> os_error + byte list" where
  "leer f n = (case lectura f of Inl e \<Rightarrow> Inl e | Inr contenido \<Rightarrow> Inr (take n contenido))"

text \<open>The first loop: \<^verbatim>\<open>frecuencias[b] += 1\<close> for every byte, from 256 zeros.\<close>

definition contar :: "byte list \<Rightarrow> nat list" where
  "contar datos = foldl (\<lambda>fr b. fr[unat b := fr ! unat b + 1]) (replicate 256 0) datos"

text \<open>The second loop: a zero frequency is skipped, the others subtract \<open>p * log2 p\<close>.\<close>

definition acumular :: "nat \<Rightarrow> real \<Rightarrow> nat \<Rightarrow> real" where
  "acumular longitud e freq =
     (if freq = 0 then e
      else e - (real freq / real longitud) * log 2 (real freq / real longitud))"

definition entropia_de :: "byte list \<Rightarrow> real" where
  "entropia_de datos = foldl (acumular (length datos)) 0 (contar datos)"

definition calcular_entropia :: "fichero \<Rightarrow> real option" where
  "calcular_entropia f =
     (case leer f MAX_BYTES_LECTURA of
        Inl e \<Rightarrow> None
      | Inr datos \<Rightarrow> if datos = [] then Some 0 else Some (entropia_de datos))"

subsection \<open>The Shannon entropy of a byte string\<close>

text \<open>
  The quantity the estimator is compared with, written as the specification words it:
  \<open>frecuencia datos b\<close> is the empirical frequency of the byte value \<open>b\<close> in the string,
  and \<open>shannon datos\<close> is minus the sum of \<open>p * log2 p\<close> over the byte values that occur.
  \<open>termino\<close> is the contribution of one entry of the table of counts.
\<close>

definition frecuencia :: "byte list \<Rightarrow> byte \<Rightarrow> real" where
  "frecuencia datos b = real (count_list datos b) / real (length datos)"

definition shannon :: "byte list \<Rightarrow> real" where
  "shannon datos =
     - (\<Sum>b \<in> {b. count_list datos b \<noteq> 0}. frecuencia datos b * log 2 (frecuencia datos b))"

definition termino :: "nat \<Rightarrow> nat \<Rightarrow> real" where
  "termino longitud freq =
     (if freq = 0 then 0
      else (real freq / real longitud) * log 2 (real freq / real longitud))"

subsection \<open>\<^verbatim>\<open>extension_sospechosa\<close>\<close>

text \<open>
  The alternatives of \<^verbatim>\<open>(locked|encrypted|crypto|enc|encrypted_\w+|deadbolt)\<close> under
  \<^verbatim>\<open>re.IGNORECASE\<close>, matched against a whole string.
\<close>

definition alternativa :: "string \<Rightarrow> bool" where
  "alternativa s =
     (lower s \<in> {''locked'', ''encrypted'', ''crypto'', ''enc'', ''deadbolt''}
      \<or> (lower (take 10 s) = ''encrypted_'' \<and> drop 10 s \<noteq> [] \<and> list_all es_palabra (drop 10 s)))"

text \<open>\<^verbatim>\<open>$\<close> matches at the end of the string and before a newline that ends it.\<close>

definition hasta_el_fin :: "string \<Rightarrow> bool" where
  "hasta_el_fin cs =
     (alternativa cs \<or> (cs \<noteq> [] \<and> last cs = CHR 0x0A \<and> alternativa (butlast cs)))"

text \<open>\<^verbatim>\<open>search\<close>: the pattern may start at any dot of the name.\<close>

fun buscar :: "string \<Rightarrow> bool" where
  "buscar [] = False"
| "buscar (c # cs) = ((c = CHR ''.'' \<and> hasta_el_fin cs) \<or> buscar cs)"

definition extension_sospechosa :: "path \<Rightarrow> bool" where
  "extension_sospechosa ruta_fichero = buscar (nombre ruta_fichero)"

subsection \<open>\<^verbatim>\<open>analizar_fichero\<close>\<close>

text \<open>
  The argument \<open>f\<close> is the file that the path reaches when it is opened. The list
  \<^verbatim>\<open>motivos\<close> is built by the two appends, in the order of the source.
\<close>

definition analizar_fichero :: "path \<Rightarrow> fichero \<Rightarrow> hallazgo option" where
  "analizar_fichero ruta_fichero f =
     (let motivos0 = (if extension_sospechosa ruta_fichero then [''extension''] else []);
          ent = calcular_entropia f;
          motivos1 = (case ent of
                        Some e \<Rightarrow> if e \<ge> UMBRAL_ENTROPIA then motivos0 @ [''entropia''] else motivos0
                      | None \<Rightarrow> motivos0)
      in if motivos1 = [] then None
         else Some \<lparr>ruta = ruta_fichero,
                    tamano = (case st_size f of Inl e \<Rightarrow> - 1 | Inr n \<Rightarrow> n),
                    entropia = ent,
                    motivos = motivos1\<rparr>)"

subsection \<open>\<^verbatim>\<open>recorrer_directorio\<close>\<close>

fun es_dir :: "nodo \<Rightarrow> bool" where
  "es_dir (Fich f) = False"
| "es_dir (Carpeta es) = True"
| "es_dir Inaccesible = True"

fun archivos_de :: "(string \<times> nodo) list \<Rightarrow> (string \<times> fichero) list" where
  "archivos_de [] = []"
| "archivos_de ((n, Fich f) # es) = (n, f) # archivos_de es"
| "archivos_de ((n, d) # es) = archivos_de es"

text \<open>
  \<^verbatim>\<open>os.walk(top)\<close>, top-down, with \<^verbatim>\<open>onerror=None\<close>: a directory yields its path, the
  names of its subdirectories and its files (each name with the file that opening
  \<^verbatim>\<open>carpeta / nombre\<close> reaches), then the walks of its subdirectories; where
  \<^verbatim>\<open>scandir\<close> raises, the error is dropped and nothing is yielded.
\<close>

fun os_walk :: "path \<Rightarrow> nodo \<Rightarrow> (path \<times> string list \<times> (string \<times> fichero) list) list" where
  "os_walk cima (Carpeta es) =
     (cima, map fst (filter (\<lambda>e. es_dir (snd e)) es), archivos_de es)
     # concat (map (\<lambda>e. if es_dir (snd e) then os_walk (cima @ [fst e]) (snd e) else []) es)"
| "os_walk cima (Fich f) = []"
| "os_walk cima Inaccesible = []"

text \<open>\<^verbatim>\<open>os.scandir\<close> on what lies at the root of the walk (\<open>None\<close>: nothing is there).\<close>

definition scandir :: "nodo option \<Rightarrow> os_error + (string \<times> nodo) list" where
  "scandir a =
     (case a of
        None \<Rightarrow> Inl FileNotFoundError
      | Some (Fich f) \<Rightarrow> Inl NotADirectoryError
      | Some Inaccesible \<Rightarrow> Inl PermissionError
      | Some (Carpeta es) \<Rightarrow> Inr es)"

definition caminar :: "nodo option \<Rightarrow> (path \<times> string list \<times> (string \<times> fichero) list) list" where
  "caminar a = (case a of None \<Rightarrow> [] | Some n \<Rightarrow> os_walk RUTA_BASE n)"

text \<open>The test of the inner loop that skips a file.\<close>

definition excluida :: "path \<Rightarrow> bool" where
  "excluida ruta_fichero = (lower (suffix_de (nombre ruta_fichero)) \<in> set EXCLUIDAS)"

text \<open>The body of the inner loop: what one file appends to \<^verbatim>\<open>sospechosos\<close>.\<close>

definition examinar :: "path \<Rightarrow> string \<times> fichero \<Rightarrow> hallazgo list" where
  "examinar carpeta_path a =
     (let ruta_fichero = unir carpeta_path (fst a)
      in if excluida ruta_fichero then []
         else (case analizar_fichero ruta_fichero (snd a) of
                 None \<Rightarrow> []
               | Some info \<Rightarrow> [info]))"

text \<open>No statement of the function raises: it returns its list in every case.\<close>

definition recorrer_directorio :: "nodo option \<Rightarrow> os_error + hallazgo list" where
  "recorrer_directorio a =
     Inr (concat (map (\<lambda>(carpeta, subcarpetas, archivos). concat (map (examinar carpeta) archivos))
                      (caminar a)))"

subsection \<open>The file system calls of the quarantine step\<close>

definition es_carpeta :: "mundo \<Rightarrow> path \<Rightarrow> bool" where
  "es_carpeta w p = (p = [] \<or> p \<in> carpetas w)"

text \<open>
  Path resolution, from the root down: the first ancestor that is missing, is a regular
  file or cannot be searched decides the error.
\<close>

fun primer_error :: "mundo \<Rightarrow> path list \<Rightarrow> os_error option" where
  "primer_error w [] = None"
| "primer_error w (q # qs) =
     (if \<not> es_carpeta w q
      then (if ficheros w q \<noteq> None then Some NotADirectoryError else Some FileNotFoundError)
      else if q \<in> sin_busqueda w then Some PermissionError
      else primer_error w qs)"

definition acceso :: "mundo \<Rightarrow> path \<Rightarrow> os_error option" where
  "acceso w p = (if p = [] then None else primer_error w (prefixes (butlast p)))"

definition os_stat :: "mundo \<Rightarrow> path \<Rightarrow> os_error + tipo" where
  "os_stat w p =
     (case acceso w p of
        Some e \<Rightarrow> Inl e
      | None \<Rightarrow>
          if es_carpeta w p then Inr Directorio
          else if ficheros w p \<noteq> None then Inr Regular
          else Inl FileNotFoundError)"

text \<open>The errors that \<^verbatim>\<open>pathlib\<close> takes for "not there" (\<^verbatim>\<open>ENOENT\<close>, \<^verbatim>\<open>ENOTDIR\<close>).\<close>

definition ignorado :: "os_error \<Rightarrow> bool" where
  "ignorado e = (e = FileNotFoundError \<or> e = NotADirectoryError)"

text \<open>\<^verbatim>\<open>Path.exists()\<close>: any other error of \<^verbatim>\<open>stat\<close> is raised again.\<close>

definition existe :: "mundo \<Rightarrow> path \<Rightarrow> os_error + bool" where
  "existe w p =
     (case os_stat w p of
        Inr t \<Rightarrow> Inr True
      | Inl e \<Rightarrow> if ignorado e then Inr False else Inl e)"

text \<open>\<^verbatim>\<open>os.path.exists\<close> and \<^verbatim>\<open>os.path.isdir\<close>: every error of \<^verbatim>\<open>stat\<close> is "no".\<close>

definition os_path_exists :: "mundo \<Rightarrow> path \<Rightarrow> bool" where
  "os_path_exists w p = (case os_stat w p of Inr t \<Rightarrow> True | Inl e \<Rightarrow> False)"

definition os_path_isdir :: "mundo \<Rightarrow> path \<Rightarrow> bool" where
  "os_path_isdir w p = (os_stat w p = Inr Directorio)"

text \<open>
  \<^verbatim>\<open>Path.mkdir(parents=True, exist_ok=True)\<close>, as a walk from the root down the
  prefixes of the path: a directory on the way must be searchable, a regular file on the
  way is an error, and what is missing is created if its parent is not read-only.
\<close>

fun mkdir_camino :: "mundo \<Rightarrow> path list \<Rightarrow> os_error + mundo" where
  "mkdir_camino w [] = Inr w"
| "mkdir_camino w (q # qs) =
     (if es_carpeta w q
      then (if qs \<noteq> [] \<and> q \<in> sin_busqueda w then Inl PermissionError
            else mkdir_camino w qs)
      else if ficheros w q \<noteq> None
      then Inl (if qs = [] then FileExistsError else NotADirectoryError)
      else if butlast q \<in> solo_lectura w then Inl PermissionError
      else mkdir_camino (w\<lparr>carpetas := insert q (carpetas w)\<rparr>) qs)"

definition mkdir_parents :: "mundo \<Rightarrow> path \<Rightarrow> os_error + mundo" where
  "mkdir_parents w p = mkdir_camino w (prefixes p)"

text \<open>
  \<^verbatim>\<open>os.rename\<close> of a regular file, as on a POSIX system: the entry leaves one directory
  and enters another, and a regular file that stands at the destination is replaced.
\<close>

definition os_rename :: "mundo \<Rightarrow> path \<Rightarrow> path \<Rightarrow> os_error + mundo" where
  "os_rename w src dst =
     (case acceso w src of
        Some e \<Rightarrow> Inl e
      | None \<Rightarrow>
          (case ficheros w src of
             None \<Rightarrow> Inl FileNotFoundError
           | Some f \<Rightarrow>
               (case acceso w dst of
                  Some e \<Rightarrow> Inl e
                | None \<Rightarrow>
                    if es_carpeta w dst then Inl IsADirectoryError
                    else if butlast src \<in> solo_lectura w \<or> butlast dst \<in> solo_lectura w
                    then Inl PermissionError
                    else Inr (w\<lparr>ficheros := ((ficheros w)(src := None))(dst \<mapsto> f)\<rparr>))))"

text \<open>
  \<^verbatim>\<open>shutil.copy2\<close>: the source is opened for reading (an unreadable file raises the
  error of its \<open>lectura\<close>), the destination for writing.
\<close>

definition copy2 :: "mundo \<Rightarrow> path \<Rightarrow> path \<Rightarrow> os_error + mundo" where
  "copy2 w src dst =
     (if src = dst then Inl ShutilError
      else case acceso w src of
        Some e \<Rightarrow> Inl e
      | None \<Rightarrow>
          (case ficheros w src of
             None \<Rightarrow> Inl FileNotFoundError
           | Some f \<Rightarrow>
               (case lectura f of
                  Inl e \<Rightarrow> Inl e
                | Inr c \<Rightarrow>
                    (case acceso w dst of
                       Some e \<Rightarrow> Inl e
                     | None \<Rightarrow>
                         if es_carpeta w dst then Inl IsADirectoryError
                         else if ficheros w dst = None \<and> butlast dst \<in> solo_lectura w
                         then Inl PermissionError
                         else Inr (w\<lparr>ficheros := (ficheros w)(dst \<mapsto> f)\<rparr>)))))"

definition os_unlink :: "mundo \<Rightarrow> path \<Rightarrow> os_error + mundo" where
  "os_unlink w p =
     (case acceso w p of
        Some e \<Rightarrow> Inl e
      | None \<Rightarrow>
          if ficheros w p = None then Inl FileNotFoundError
          else if butlast p \<in> solo_lectura w then Inl PermissionError
          else Inr (w\<lparr>ficheros := (ficheros w)(p := None)\<rparr>))"

text \<open>
  \<^verbatim>\<open>shutil.move(src, dst)\<close> for a source that is a regular file or is missing (the branch
  for a source that is a directory is left out). A destination that is a directory
  receives the file under the source's name and must not hold that name already. The
  file is renamed; when the rename raises, it is copied and the source is then removed.
  An error is returned with the file table it leaves: a copy whose source could not be
  removed stays at the destination.
\<close>

definition shutil_move :: "mundo \<Rightarrow> path \<Rightarrow> path \<Rightarrow> (os_error \<times> mundo) + mundo" where
  "shutil_move w src dst =
     (let real_dst = (if os_path_isdir w dst then unir dst (nombre src) else dst)
      in if os_path_isdir w dst \<and> os_path_exists w real_dst then Inl (ShutilError, w)
         else (case os_rename w src real_dst of
                 Inr w' \<Rightarrow> Inr w'
               | Inl e \<Rightarrow>
                   (case copy2 w src real_dst of
                      Inl e' \<Rightarrow> Inl (e', w)
                    | Inr w1 \<Rightarrow>
                        (case os_unlink w1 src of
                           Inl e'' \<Rightarrow> Inl (e'', w1)
                         | Inr w2 \<Rightarrow> Inr w2))))"

subsection \<open>\<^verbatim>\<open>mover_a_cuarentena\<close>\<close>

text \<open>
  The destination chosen for one finding; \<open>ts\<close> is what
  \<^verbatim>\<open>datetime.now().strftime("%Y%m%d%H%M%S")\<close> returns if it is called. The test
  \<^verbatim>\<open>destino.exists()\<close> stands before the \<^verbatim>\<open>try\<close>: what it raises leaves the function.
\<close>

definition elegir_destino :: "mundo \<Rightarrow> string \<Rightarrow> path \<Rightarrow> os_error + path" where
  "elegir_destino w ts origen =
     (let destino = unir RUTA_CUARENTENA (nombre origen)
      in case existe w destino of
           Inl e \<Rightarrow> Inl e
         | Inr b \<Rightarrow>
             if b
             then Inr (unir RUTA_CUARENTENA
                        (stem_de (nombre destino) @ ''_'' @ ts @ suffix_de (nombre destino)))
             else Inr destino)"

text \<open>
  The body of the loop for the element of index \<open>i\<close> of the list; \<open>reloj i\<close> is the
  timestamp at that element. A move that raises prints a line and appends nothing.
\<close>

definition un_paso :: "(nat \<Rightarrow> string) \<Rightarrow> nat \<Rightarrow> salida \<Rightarrow> os_error + salida" where
  "un_paso reloj i s =
     (let info = lista s ! i;
          origen = ruta info
      in case elegir_destino (final s) (reloj i) origen of
           Inl e \<Rightarrow> Inl e
         | Inr destino \<Rightarrow>
             (case shutil_move (final s) origen destino of
                Inr w' \<Rightarrow> Inr (s\<lparr>final := w', destinos := destinos s @ [destino]\<rparr>)
              | Inl (e, w') \<Rightarrow> Inr (s\<lparr>final := w', impreso := impreso s @ [(origen, e)]\<rparr>)))"

text \<open>
  \<^verbatim>\<open>for info in sospechosos\<close>: the iterator reads the list object by index, as the list
  stands at that moment, and stops at its end.
\<close>

function mover_bucle :: "(nat \<Rightarrow> string) \<Rightarrow> nat \<Rightarrow> salida \<Rightarrow> os_error + salida" where
  "mover_bucle reloj i s =
     (if i < length (lista s)
      then (case un_paso reloj i s of
              Inl e \<Rightarrow> Inl e
            | Inr s' \<Rightarrow> mover_bucle reloj (Suc i) s')
      else Inr s)"
  by pat_completeness auto
termination
  by (relation "measure (\<lambda>(reloj, i, s). length (lista s) - i)")
     (auto simp: un_paso_def Let_def split: sum.splits prod.splits)

declare mover_bucle.simps [simp del]

text \<open>The first two lines of the function: the directory is created only if nothing is at its path.\<close>

definition asegurar_cuarentena :: "mundo \<Rightarrow> os_error + mundo" where
  "asegurar_cuarentena w =
     (case existe w RUTA_CUARENTENA of
        Inl e \<Rightarrow> Inl e
      | Inr b \<Rightarrow> if \<not> b then mkdir_parents w RUTA_CUARENTENA else Inr w)"

definition mover_a_cuarentena :: "(nat \<Rightarrow> string) \<Rightarrow> hallazgo list \<Rightarrow> mundo \<Rightarrow> os_error + salida" where
  "mover_a_cuarentena reloj sospechosos w =
     (case asegurar_cuarentena w of
        Inl e \<Rightarrow> Inl e
      | Inr w1 \<Rightarrow>
          mover_bucle reloj 0 \<lparr>lista = sospechosos, final = w1, destinos = [], impreso = []\<rparr>)"

subsection \<open>\<^verbatim>\<open>mostrar_informe\<close> and the entry point\<close>







subsection \<open>Example files, trees and file tables\<close>

text \<open>
  Concrete inputs for the instances below: three files that differ, a clock that always
  gives the same second, an empty table, a table with two files named \<^verbatim>\<open>x.locked\<close>
  in two subdirectories and an empty quarantine directory, and variants of it: after an
  earlier run has left a file \<^verbatim>\<open>x.locked\<close> in quarantine, with a quarantine directory
  that cannot be searched, with a read-only source directory, and with a regular file
  where the quarantine directory should be; last, a tree with one such file.
\<close>

definition fichero_a :: fichero where
  "fichero_a = \<lparr>lectura = Inr [], st_size = Inr 0\<rparr>"

definition fichero_b :: fichero where
  "fichero_b = \<lparr>lectura = Inl PermissionError, st_size = Inr 7\<rparr>"

definition fichero_c :: fichero where
  "fichero_c = \<lparr>lectura = Inl PermissionError, st_size = Inl PermissionError\<rparr>"

text \<open>The string of length 256 that holds every byte value once.\<close>

definition todos_los_bytes :: "byte list" where
  "todos_los_bytes = map of_nat [0..<256]"

definition reloj_fijo :: "nat \<Rightarrow> string" where
  "reloj_fijo i = ''20240101000000''"

definition hallazgo_de :: "path \<Rightarrow> hallazgo" where
  "hallazgo_de p = \<lparr>ruta = p, tamano = 0, entropia = None, motivos = [''extension'']\<rparr>"


definition mundo_ej :: mundo where
  "mundo_ej =
     \<lparr>ficheros = [[''Compartido'', ''a'', ''x.locked''] \<mapsto> fichero_a,
                  [''Compartido'', ''b'', ''x.locked''] \<mapsto> fichero_b],
      carpetas = {RUTA_CUARENTENA, [''Compartido''], [''Compartido'', ''a''],
                  [''Compartido'', ''b'']},
      sin_busqueda = {},
      solo_lectura = {}\<rparr>"

definition mundo_repetido :: mundo where
  "mundo_repetido =
     mundo_ej\<lparr>ficheros :=
       (ficheros mundo_ej)([''cuarentena_ransomware'', ''x.locked''] \<mapsto> fichero_c)\<rparr>"

definition mundo_cerrado :: mundo where
  "mundo_cerrado = mundo_ej\<lparr>sin_busqueda := {RUTA_CUARENTENA}\<rparr>"

definition mundo_solo_lectura :: mundo where
  "mundo_solo_lectura = mundo_ej\<lparr>solo_lectura := {[''Compartido'', ''a'']}\<rparr>"



section \<open>Properties\<close>

subsection \<open>Names, stems and suffixes\<close>

lemma rfind_punto_None: "rfind_punto n = None \<longleftrightarrow> CHR ''.'' \<notin> set n"
  by (induction n) (auto split: option.splits)

lemma rfind_punto_append:
  "CHR ''.'' \<notin> set e \<Longrightarrow> rfind_punto (s @ CHR ''.'' # e) = Some (length s)"
proof (induction s)
  case Nil
  then show ?case using rfind_punto_None [of e] by simp
next
  case (Cons c s)
  then show ?case by simp
qed

lemma rfind_punto_Some:
  "rfind_punto n = Some i \<Longrightarrow>
     i < length n \<and> n ! i = CHR ''.'' \<and> CHR ''.'' \<notin> set (drop (Suc i) n)"
proof (induction n arbitrary: i)
  case Nil
  then show ?case by simp
next
  case (Cons c cs)
  show ?case
  proof (cases "rfind_punto cs")
    case None
    with Cons.prems have "c = CHR ''.''" and "i = 0"
      by (auto split: if_splits)
    moreover from None have "CHR ''.'' \<notin> set cs"
      by (simp add: rfind_punto_None)
    ultimately show ?thesis by simp
  next
    case (Some j)
    with Cons.prems have "i = Suc j" by simp
    with Cons.IH [OF Some] show ?thesis by simp
  qed
qed

lemma stem_suffix: "stem_de n @ suffix_de n = n"
  by (simp add: stem_de_def suffix_de_def split: option.splits)

lemma suffix_de_corte:
  "s \<noteq> [] \<Longrightarrow> e \<noteq> [] \<Longrightarrow> CHR ''.'' \<notin> set e \<Longrightarrow>
     suffix_de (s @ CHR ''.'' # e) = CHR ''.'' # e"
  by (simp add: suffix_de_def rfind_punto_append)

lemma suffix_de_forma:
  assumes "suffix_de n \<noteq> []"
  shows "\<exists>s e. n = s @ CHR ''.'' # e \<and> s \<noteq> [] \<and> e \<noteq> [] \<and> CHR ''.'' \<notin> set e
           \<and> suffix_de n = CHR ''.'' # e"
proof -
  from assms obtain i where i: "rfind_punto n = Some i" "0 < i" "i < length n - 1"
    and sf: "suffix_de n = drop i n"
    by (auto simp: suffix_de_def split: option.splits if_splits)
  from rfind_punto_Some [OF i(1)]
  have p: "i < length n" "n ! i = CHR ''.''" "CHR ''.'' \<notin> set (drop (Suc i) n)"
    by simp_all
  have d: "drop i n = CHR ''.'' # drop (Suc i) n"
    using p(1) p(2) by (metis Cons_nth_drop_Suc)
  have "n = take i n @ CHR ''.'' # drop (Suc i) n"
    using d by (metis append_take_drop_id)
  moreover have "take i n \<noteq> []" using i(2) p(1) by auto
  moreover have "drop (Suc i) n \<noteq> []" using i(3) by auto
  ultimately show ?thesis using p(3) sf d by metis
qed

lemma nombre_unir: "n \<noteq> [] \<Longrightarrow> nombre (unir p n) = n"
  by (simp add: nombre_def unir_def)

lemma excluida_forma:
  assumes "n \<noteq> []"
  shows "excluida (unir p n) \<longleftrightarrow>
     (\<exists>s e. n = s @ CHR ''.'' # e \<and> s \<noteq> [] \<and> e \<noteq> [] \<and> CHR ''.'' \<notin> set e
            \<and> lower (CHR ''.'' # e) \<in> set EXCLUIDAS)"
proof
  assume "excluida (unir p n)"
  then have l: "lower (suffix_de n) \<in> set EXCLUIDAS"
    using assms by (simp add: excluida_def nombre_unir)
  then have "suffix_de n \<noteq> []"
    by (auto simp: EXCLUIDAS_def lower_def)
  from suffix_de_forma [OF this] l
  show "\<exists>s e. n = s @ CHR ''.'' # e \<and> s \<noteq> [] \<and> e \<noteq> [] \<and> CHR ''.'' \<notin> set e
            \<and> lower (CHR ''.'' # e) \<in> set EXCLUIDAS"
    by metis
next
  assume "\<exists>s e. n = s @ CHR ''.'' # e \<and> s \<noteq> [] \<and> e \<noteq> [] \<and> CHR ''.'' \<notin> set e
            \<and> lower (CHR ''.'' # e) \<in> set EXCLUIDAS"
  then obtain s e where "n = s @ CHR ''.'' # e" "s \<noteq> []" "e \<noteq> []" "CHR ''.'' \<notin> set e"
     "lower (CHR ''.'' # e) \<in> set EXCLUIDAS" by blast
  then show "excluida (unir p n)"
    using assms by (simp add: excluida_def nombre_unir suffix_de_corte)
qed

subsection \<open>The entropy estimator and its reads\<close>

lemma calcular_entropia_Inl: "lectura f = Inl e \<Longrightarrow> calcular_entropia f = None"
  by (simp add: calcular_entropia_def leer_def)

lemma calcular_entropia_Inr:
  "lectura f = Inr c \<Longrightarrow>
   calcular_entropia f =
     Some (if take MAX_BYTES_LECTURA c = [] then 0 else entropia_de (take MAX_BYTES_LECTURA c))"
  by (simp add: calcular_entropia_def leer_def)

lemma leer_Inr: "lectura f = Inr c \<Longrightarrow> leer f n = Inr (take n c)"
  by (simp add: leer_def)

lemma calcular_entropia_None_iff: "calcular_entropia f = None \<longleftrightarrow> (\<exists>e. lectura f = Inl e)"
  by (cases "lectura f") (simp_all add: calcular_entropia_Inl calcular_entropia_Inr)

text \<open>
  Claim C5. The estimator reads at most \<open>MAX_BYTES_LECTURA\<close> bytes from the start of
  the file, so its value depends on that prefix only; when the file cannot be opened or
  read it returns the absent value instead of raising, and in no other case; when the
  prefix read is empty it returns exactly 0.
\<close>

theorem calcular_entropia_lectura:
  "(\<forall>e. lectura f = Inl e \<longrightarrow> calcular_entropia f = None)
  \<and> (\<forall>c. lectura f = Inr c \<longrightarrow>
        leer f MAX_BYTES_LECTURA = Inr (take MAX_BYTES_LECTURA c)
        \<and> length (take MAX_BYTES_LECTURA c) \<le> MAX_BYTES_LECTURA
        \<and> calcular_entropia f =
            Some (if take MAX_BYTES_LECTURA c = [] then 0
                  else entropia_de (take MAX_BYTES_LECTURA c)))
  \<and> (lectura f = Inr [] \<longrightarrow> calcular_entropia f = Some 0)
  \<and> (\<forall>c c' (g::fichero). lectura f = Inr c \<and> lectura g = Inr c'
        \<and> take MAX_BYTES_LECTURA c = take MAX_BYTES_LECTURA c'
        \<longrightarrow> calcular_entropia g = calcular_entropia f)
  \<and> (calcular_entropia f = None \<longleftrightarrow> (\<exists>e. lectura f = Inl e))"
proof (intro conjI allI impI)
  fix e assume "lectura f = Inl e"
  then show "calcular_entropia f = None" by (rule calcular_entropia_Inl)
next
  fix c assume "lectura f = Inr c"
  then show "leer f MAX_BYTES_LECTURA = Inr (take MAX_BYTES_LECTURA c)" by (rule leer_Inr)
next
  fix c assume "lectura f = Inr c"
  show "length (take MAX_BYTES_LECTURA c) \<le> MAX_BYTES_LECTURA" by simp
next
  fix c assume "lectura f = Inr c"
  then show "calcular_entropia f =
            Some (if take MAX_BYTES_LECTURA c = [] then 0
                  else entropia_de (take MAX_BYTES_LECTURA c))"
    by (rule calcular_entropia_Inr)
next
  assume "lectura f = Inr []"
  from calcular_entropia_Inr [OF this] show "calcular_entropia f = Some 0" by simp
next
  fix c c' and g :: fichero
  assume a: "lectura f = Inr c \<and> lectura g = Inr c'
        \<and> take MAX_BYTES_LECTURA c = take MAX_BYTES_LECTURA c'"
  then have "lectura f = Inr c" "lectura g = Inr c'" by simp_all
  from calcular_entropia_Inr [OF this(1)] calcular_entropia_Inr [OF this(2)] a
  show "calcular_entropia g = calcular_entropia f" by simp
next
  show "calcular_entropia f = None \<longleftrightarrow> (\<exists>e. lectura f = Inl e)"
    by (rule calcular_entropia_None_iff)
qed

theorem calcular_entropia_lectura_witness:
  "lectura \<lparr>lectura = Inr [], st_size = Inr 0\<rparr> = Inr []
   \<and> calcular_entropia \<lparr>lectura = Inr [], st_size = Inr 0\<rparr> = Some 0"
proof -
  have h: "lectura \<lparr>lectura = Inr [], st_size = Inr 0\<rparr> = Inr []" by simp
  from calcular_entropia_lectura [of "\<lparr>lectura = Inr [], st_size = Inr 0\<rparr>"]
  have "lectura \<lparr>lectura = Inr [], st_size = Inr 0\<rparr> = Inr []
          \<longrightarrow> calcular_entropia \<lparr>lectura = Inr [], st_size = Inr 0\<rparr> = Some 0"
    by (elim conjE)
  with h show ?thesis by simp
qed

subsection \<open>The classifier\<close>

lemma analizar_fichero_ruta: "analizar_fichero p f = Some h \<Longrightarrow> ruta h = p"
  by (auto simp: analizar_fichero_def Let_def split: if_splits)

text \<open>
  Claim C4. The classifier returns a finding if and only if at least one check
  triggers; the reasons of the finding are exactly the checks that hold (the extension
  pattern on the file name, the entropy present and at least the threshold), each
  decided whatever the other gives; an absent entropy never triggers.
\<close>

theorem analizar_fichero_motivos_exactos:
  "(analizar_fichero p f \<noteq> None \<longleftrightarrow>
      extension_sospechosa p \<or> (\<exists>e. calcular_entropia f = Some e \<and> e \<ge> UMBRAL_ENTROPIA))
  \<and> (\<forall>h. analizar_fichero p f = Some h \<longrightarrow>
        (''extension'' \<in> set (motivos h) \<longleftrightarrow> extension_sospechosa p)
      \<and> (''entropia'' \<in> set (motivos h) \<longleftrightarrow>
           (\<exists>e. calcular_entropia f = Some e \<and> e \<ge> UMBRAL_ENTROPIA))
      \<and> set (motivos h) \<subseteq> {''extension'', ''entropia''})
  \<and> (calcular_entropia f = None \<longrightarrow>
        (analizar_fichero p f \<noteq> None \<longleftrightarrow> extension_sospechosa p))"
  by (auto simp: analizar_fichero_def Let_def split: if_splits option.splits)

theorem analizar_fichero_motivos_exactos_witness:
  "extension_sospechosa [''Compartido'', ''report.locked'']
   \<and> analizar_fichero [''Compartido'', ''report.locked'']
       \<lparr>lectura = Inl PermissionError, st_size = Inl PermissionError\<rparr> \<noteq> None
   \<and> \<not> extension_sospechosa [''Compartido'', ''old.locked'', ''data.bin'']
   \<and> calcular_entropia \<lparr>lectura = Inl PermissionError, st_size = Inl PermissionError\<rparr> = None
   \<and> analizar_fichero [''Compartido'', ''old.locked'', ''data.bin'']
       \<lparr>lectura = Inl PermissionError, st_size = Inl PermissionError\<rparr> = None"
proof -
  let ?f = "\<lparr>lectura = Inl PermissionError, st_size = Inl PermissionError\<rparr>"
  have e: "extension_sospechosa [''Compartido'', ''report.locked'']"
    by (simp add: extension_sospechosa_def nombre_def hasta_el_fin_def
          alternativa_def lower_def minuscula_def)
  have n: "\<not> extension_sospechosa [''Compartido'', ''old.locked'', ''data.bin'']"
    by (simp add: extension_sospechosa_def nombre_def hasta_el_fin_def
          alternativa_def lower_def minuscula_def)
  have c: "calcular_entropia ?f = None"
    by (simp add: calcular_entropia_def leer_def)
  from analizar_fichero_motivos_exactos [of "[''Compartido'', ''report.locked'']" ?f]
  have "analizar_fichero [''Compartido'', ''report.locked''] ?f \<noteq> None
        \<longleftrightarrow> extension_sospechosa [''Compartido'', ''report.locked'']
          \<or> (\<exists>e. calcular_entropia ?f = Some e \<and> e \<ge> UMBRAL_ENTROPIA)"
    by (elim conjE)
  with e have 1: "analizar_fichero [''Compartido'', ''report.locked''] ?f \<noteq> None"
    by blast
  from analizar_fichero_motivos_exactos [of "[''Compartido'', ''old.locked'', ''data.bin'']" ?f]
  have "calcular_entropia ?f = None \<longrightarrow>
          (analizar_fichero [''Compartido'', ''old.locked'', ''data.bin''] ?f \<noteq> None
           \<longleftrightarrow> extension_sospechosa [''Compartido'', ''old.locked'', ''data.bin''])"
    by (elim conjE)
  with c n have 2: "analizar_fichero [''Compartido'', ''old.locked'', ''data.bin''] ?f = None"
    by blast
  from e 1 n c 2 show ?thesis by (intro conjI)
qed

text \<open>
  Claim C10. Every finding of the classifier has a list of reasons that is not empty,
  has no duplicate and is a sublist of \<open>[''extension'', ''entropia'']\<close>, so that
  \<open>''extension''\<close> comes first when both are there; the finding carries the value the
  estimator returned, present or absent, whichever reason triggered.
\<close>

theorem analizar_fichero_motivos_ordenados:
  "analizar_fichero p f = Some h \<Longrightarrow>
     motivos h \<noteq> [] \<and> distinct (motivos h)
     \<and> subseq (motivos h) [''extension'', ''entropia'']
     \<and> entropia h = calcular_entropia f"
  by (auto simp: analizar_fichero_def Let_def split: if_splits option.splits)

theorem analizar_fichero_motivos_ordenados_witness:
  "analizar_fichero [''Compartido'', ''report.locked'']
       \<lparr>lectura = Inr [], st_size = Inr 0\<rparr>
     = Some \<lparr>ruta = [''Compartido'', ''report.locked''], tamano = 0, entropia = Some 0,
             motivos = [''extension'']\<rparr>
   \<and> subseq [''extension''] [''extension'', ''entropia'']
   \<and> calcular_entropia \<lparr>lectura = Inr [], st_size = Inr 0\<rparr> = Some 0"
proof -
  have e: "extension_sospechosa [''Compartido'', ''report.locked'']"
    by (simp add: extension_sospechosa_def nombre_def hasta_el_fin_def
          alternativa_def lower_def minuscula_def)
  have c: "calcular_entropia \<lparr>lectura = Inr [], st_size = Inr 0\<rparr> = Some 0"
    by (simp add: calcular_entropia_def leer_def)
  have h: "analizar_fichero [''Compartido'', ''report.locked'']
       \<lparr>lectura = Inr [], st_size = Inr 0\<rparr>
     = Some \<lparr>ruta = [''Compartido'', ''report.locked''], tamano = 0, entropia = Some 0,
             motivos = [''extension'']\<rparr>"
    by (simp add: analizar_fichero_def e c UMBRAL_ENTROPIA_def)
  from analizar_fichero_motivos_ordenados [OF h] h show ?thesis by simp
qed

subsection \<open>The scan\<close>

lemma caminar_error: "scandir a = Inl e \<Longrightarrow> caminar a = []"
  by (auto simp: scandir_def caminar_def split: option.splits nodo.splits)

text \<open>
  Claim C2, as the code has it. When the root of the scan does not exist, is not a
  directory or cannot be listed, the scan raises nothing: it returns the empty list of
  findings, the value it returns for an empty directory. No finding is reported for
  such a root.
\<close>

theorem recorrer_directorio_raiz_inaccesible:
  "scandir a = Inl e \<Longrightarrow>
     recorrer_directorio a = Inr []
     \<and> recorrer_directorio a = recorrer_directorio (Some (Carpeta []))"
  by (simp add: recorrer_directorio_def caminar_error) (simp add: caminar_def)

theorem recorrer_directorio_raiz_inaccesible_witness:
  "scandir (Some Inaccesible) = Inl PermissionError
   \<and> recorrer_directorio (Some Inaccesible) = Inr []"
proof -
  have h: "scandir (Some Inaccesible) = Inl PermissionError"
    by (simp add: scandir_def)
  from recorrer_directorio_raiz_inaccesible [OF h] h show ?thesis by simp
qed

text \<open>
  Claim C2 as stated fails: with no root at all, listing it raises
  \<open>FileNotFoundError\<close>, and the scan still returns normally, with the empty list.
\<close>

theorem recorrer_directorio_raiz_ausente:
  "scandir None = Inl FileNotFoundError \<and> recorrer_directorio None = Inr []"
  by (simp add: scandir_def recorrer_directorio_def caminar_def)

lemma examinar_ruta:
  assumes h: "h \<in> set (examinar c a)"
  shows "\<not> excluida (ruta h) \<and> analizar_fichero (unir c (fst a)) (snd a) = Some h"
proof -
  from h have ne: "\<not> excluida (unir c (fst a))"
    by (auto simp: examinar_def Let_def split: if_splits)
  with h have s: "analizar_fichero (unir c (fst a)) (snd a) = Some h"
    by (cases "analizar_fichero (unir c (fst a)) (snd a)") (simp_all add: examinar_def Let_def)
  with ne analizar_fichero_ruta [OF s] show ?thesis by simp
qed

lemma recorrer_no_excluida:
  assumes "recorrer_directorio a = Inr hs" and "h \<in> set hs"
  shows "\<not> excluida (ruta h)"
proof -
  from assms obtain c x where "h \<in> set (examinar c x)"
    by (auto simp: recorrer_directorio_def)
  then show ?thesis by (simp add: examinar_ruta)
qed

lemma excluida_photo: "excluida (unir c ''photo.locked.jpg'')"
  by (simp add: excluida_def unir_def nombre_def suffix_de_def lower_def minuscula_def EXCLUIDAS_def)

lemma excluida_archive: "\<not> excluida (unir c ''archive.jpg.locked'')"
  by (simp add: excluida_def unir_def nombre_def suffix_de_def lower_def minuscula_def EXCLUIDAS_def)

lemma sospechosa_archive: "extension_sospechosa (unir c ''archive.jpg.locked'')"
  by (simp add: extension_sospechosa_def unir_def nombre_def hasta_el_fin_def
          alternativa_def lower_def minuscula_def)

lemma analizar_extension:
  "extension_sospechosa p \<Longrightarrow> \<exists>h. analizar_fichero p f = Some h \<and> ''extension'' \<in> set (motivos h)"
  by (auto simp: analizar_fichero_def Let_def split: option.splits)

lemma examinar_excl: "excluida (unir c n) \<Longrightarrow> examinar c (n, f) = []"
  by (simp add: examinar_def)

lemma examinar_no_excl: "\<not> excluida (unir c n) \<Longrightarrow> examinar c (n, f) =
       (case analizar_fichero (unir c n) f of None \<Rightarrow> [] | Some info \<Rightarrow> [info])"
  by (simp add: examinar_def)

lemma minuscula_letra:
  assumes "97 \<le> (of_char d :: nat)" and "(of_char d :: nat) \<le> 122"
  shows "minuscula c = d \<longleftrightarrow>
           (c = d \<or> 65 \<le> (of_char c :: nat) \<and> (of_char c :: nat) \<le> 90
                     \<and> (of_char c :: nat) + 32 = of_char d)"
proof -
  define n where "n = (of_char c :: nat)"
  have n: "n < 256" unfolding n_def by simp
  consider (may) "65 \<le> n \<and> n \<le> 90" | (lat) "192 \<le> n \<and> n \<le> 222 \<and> n \<noteq> 215"
    | (otro) "\<not> (65 \<le> n \<and> n \<le> 90) \<and> \<not> (192 \<le> n \<and> n \<le> 222 \<and> n \<noteq> 215)"
    by blast
  then show ?thesis
  proof cases
    case may
    then have m: "minuscula c = char_of (n + 32)"
      by (simp add: minuscula_def Let_def n_def)
    have o: "(of_char (char_of (n + 32) :: char) :: nat) = n + 32"
      using may by simp
    have ne: "c \<noteq> d" using may assms by (auto simp: n_def)
    have "char_of (n + 32) = d \<longleftrightarrow> n + 32 = (of_char d :: nat)"
    proof
      assume "char_of (n + 32) = d"
      with o show "n + 32 = (of_char d :: nat)" by simp
    next
      assume "n + 32 = (of_char d :: nat)"
      then have "char_of (n + 32) = (char_of (of_char d :: nat) :: char)" by simp
      then show "char_of (n + 32) = d" by simp
    qed
    with m ne may show ?thesis by (simp add: n_def)
  next
    case lat
    then have m: "minuscula c = char_of (n + 32)"
      by (simp add: minuscula_def Let_def n_def)
    have o: "(of_char (char_of (n + 32) :: char) :: nat) = n + 32"
      using lat by simp
    have "minuscula c \<noteq> d"
    proof
      assume "minuscula c = d"
      with m o have "(of_char d :: nat) = n + 32" by simp
      with lat assms show False by simp
    qed
    moreover have "c \<noteq> d" using lat assms by (auto simp: n_def)
    ultimately show ?thesis using lat by (simp add: n_def)
  next
    case otro
    then have "minuscula c = c"
      by (auto simp: minuscula_def Let_def n_def)
    with otro show ?thesis by (auto simp: n_def)
  qed
qed

lemma lower_sin_caja:
  "\<forall>d \<in> set x. 97 \<le> (of_char d :: nat) \<and> (of_char d :: nat) \<le> 122 \<Longrightarrow>
     lower e = x \<longleftrightarrow>
       list_all2 (\<lambda>c d. c = d \<or> 65 \<le> (of_char c :: nat) \<and> (of_char c :: nat) \<le> 90
                                 \<and> (of_char c :: nat) + 32 = of_char d) e x"
proof (induction e arbitrary: x)
  case Nil
  then show ?case by (auto simp: lower_def)
next
  case (Cons c e)
  show ?case
  proof (cases x)
    case Nil
    then show ?thesis by (simp add: lower_def)
  next
    case (Cons d x')
    with Cons.prems have l: "97 \<le> (of_char d :: nat)" "(of_char d :: nat) \<le> 122"
      and r: "\<forall>d \<in> set x'. 97 \<le> (of_char d :: nat) \<and> (of_char d :: nat) \<le> 122"
      by simp_all
    from Cons.IH [OF r] minuscula_letra [OF l, of c] Cons show ?thesis
      by (simp add: lower_def)
  qed
qed

lemma lower_punto: "lower (CHR ''.'' # e) = CHR ''.'' # lower e"
  by (simp add: lower_def minuscula_def)

lemma excluidas_sin_caja:
  "lower (CHR ''.'' # e) \<in> set EXCLUIDAS \<longleftrightarrow>
     (\<exists>x \<in> {''jpg'', ''jpeg'', ''png'', ''gif''}.
        list_all2 (\<lambda>c d. c = d \<or> 65 \<le> (of_char c :: nat) \<and> (of_char c :: nat) \<le> 90
                                  \<and> (of_char c :: nat) + 32 = of_char d) e x)"
proof -
  have "lower (CHR ''.'' # e) \<in> set EXCLUIDAS \<longleftrightarrow>
          lower e = ''jpg'' \<or> lower e = ''jpeg'' \<or> lower e = ''png'' \<or> lower e = ''gif''"
    by (simp add: lower_punto EXCLUIDAS_def)
  also have "lower e = ''jpg'' \<longleftrightarrow>
     list_all2 (\<lambda>c d. c = d \<or> 65 \<le> (of_char c :: nat) \<and> (of_char c :: nat) \<le> 90
                                  \<and> (of_char c :: nat) + 32 = of_char d) e ''jpg''"
    by (rule lower_sin_caja) simp
  also have "lower e = ''jpeg'' \<longleftrightarrow>
     list_all2 (\<lambda>c d. c = d \<or> 65 \<le> (of_char c :: nat) \<and> (of_char c :: nat) \<le> 90
                                  \<and> (of_char c :: nat) + 32 = of_char d) e ''jpeg''"
    by (rule lower_sin_caja) simp
  also have "lower e = ''png'' \<longleftrightarrow>
     list_all2 (\<lambda>c d. c = d \<or> 65 \<le> (of_char c :: nat) \<and> (of_char c :: nat) \<le> 90
                                  \<and> (of_char c :: nat) + 32 = of_char d) e ''png''"
    by (rule lower_sin_caja) simp
  also have "lower e = ''gif'' \<longleftrightarrow>
     list_all2 (\<lambda>c d. c = d \<or> 65 \<le> (of_char c :: nat) \<and> (of_char c :: nat) \<le> 90
                                  \<and> (of_char c :: nat) + 32 = of_char d) e ''gif''"
    by (rule lower_sin_caja) simp
  finally show ?thesis by simp
qed

lemma excluida_mayusculas:
  "excluida (unir c ''PHOTO.JPG'')" "excluida (unir c ''photo.locked.JpEg'')"
  "\<not> excluida (unir c ''ARCHIVE.JPG.LOCKED'')" "\<not> excluida (unir c ''photo.jpgx'')"
  "\<not> excluida (unir c ''photojpg'')" "\<not> excluida (unir c ''.jpg'')"
  by (simp_all add: excluida_def unir_def nombre_def suffix_de_def excluidas_sin_caja)
     (simp_all add: lower_def EXCLUIDAS_def)

lemma excluida_sin_caja:
  assumes "n \<noteq> []"
  shows "excluida (unir p n) \<longleftrightarrow>
     (\<exists>s e x. n = s @ CHR ''.'' # e \<and> s \<noteq> [] \<and> CHR ''.'' \<notin> set e
            \<and> x \<in> {''jpg'', ''jpeg'', ''png'', ''gif''}
            \<and> list_all2 (\<lambda>c d. c = d \<or> 65 \<le> (of_char c :: nat) \<and> (of_char c :: nat) \<le> 90
                                        \<and> (of_char c :: nat) + 32 = of_char d) e x)"
proof
  assume "excluida (unir p n)"
  with excluida_forma [OF assms, of p] obtain s e
    where "n = s @ CHR ''.'' # e" "s \<noteq> []" "CHR ''.'' \<notin> set e"
      "lower (CHR ''.'' # e) \<in> set EXCLUIDAS" by blast
  then show "\<exists>s e x. n = s @ CHR ''.'' # e \<and> s \<noteq> [] \<and> CHR ''.'' \<notin> set e
            \<and> x \<in> {''jpg'', ''jpeg'', ''png'', ''gif''}
            \<and> list_all2 (\<lambda>c d. c = d \<or> 65 \<le> (of_char c :: nat) \<and> (of_char c :: nat) \<le> 90
                                        \<and> (of_char c :: nat) + 32 = of_char d) e x"
    unfolding excluidas_sin_caja by blast
next
  assume "\<exists>s e x. n = s @ CHR ''.'' # e \<and> s \<noteq> [] \<and> CHR ''.'' \<notin> set e
            \<and> x \<in> {''jpg'', ''jpeg'', ''png'', ''gif''}
            \<and> list_all2 (\<lambda>c d. c = d \<or> 65 \<le> (of_char c :: nat) \<and> (of_char c :: nat) \<le> 90
                                        \<and> (of_char c :: nat) + 32 = of_char d) e x"
  then obtain s e x where n: "n = s @ CHR ''.'' # e" "s \<noteq> []" "CHR ''.'' \<notin> set e"
    and x: "x \<in> {''jpg'', ''jpeg'', ''png'', ''gif''}"
    and l: "list_all2 (\<lambda>c d. c = d \<or> 65 \<le> (of_char c :: nat) \<and> (of_char c :: nat) \<le> 90
                                        \<and> (of_char c :: nat) + 32 = of_char d) e x"
    by blast
  from x l have "e \<noteq> []" by auto
  moreover from x l have "lower (CHR ''.'' # e) \<in> set EXCLUIDAS"
    unfolding excluidas_sin_caja by blast
  ultimately show "excluida (unir p n)"
    unfolding excluida_forma [OF assms] using n by blast
qed

text \<open>
  Claim C7. The scan skips a file, before it is classified, exactly when the suffix of
  its name is in the exclusion list, whatever the case of its letters. The suffix is the
  one of \<^verbatim>\<open>PurePath.suffix\<close>: the text from the last dot of the name, when that dot is
  neither its first nor its last character; it is not a substring test. The comparison
  is stated twice: with \<open>lower\<close>, as the code writes it, and letter by letter, where a
  letter of the name matches a letter of \<^verbatim>\<open>jpg\<close>, \<^verbatim>\<open>jpeg\<close>, \<^verbatim>\<open>png\<close> or \<^verbatim>\<open>gif\<close> when it
  is that letter or its capital. So \<^verbatim>\<open>photo.locked.jpg\<close>, \<^verbatim>\<open>PHOTO.JPG\<close> and
  \<^verbatim>\<open>photo.locked.JpEg\<close> are skipped; \<^verbatim>\<open>archive.jpg.locked\<close> is classified (and flagged
  for its extension); \<^verbatim>\<open>ARCHIVE.JPG.LOCKED\<close>, \<^verbatim>\<open>photo.jpgx\<close>, \<^verbatim>\<open>photojpg\<close> and \<^verbatim>\<open>.jpg\<close>
  are not skipped; and no finding of a scan has an excluded suffix.
\<close>

theorem examinar_excluida:
  "(excluida (unir carpeta n) \<longrightarrow> examinar carpeta (n, f) = [])
  \<and> (\<not> excluida (unir carpeta n) \<longrightarrow>
       examinar carpeta (n, f) =
         (case analizar_fichero (unir carpeta n) f of None \<Rightarrow> [] | Some info \<Rightarrow> [info]))
  \<and> (n \<noteq> [] \<longrightarrow>
       (excluida (unir carpeta n) \<longleftrightarrow>
         (\<exists>s e. n = s @ CHR ''.'' # e \<and> s \<noteq> [] \<and> e \<noteq> [] \<and> CHR ''.'' \<notin> set e
               \<and> lower (CHR ''.'' # e) \<in> set EXCLUIDAS)))
  \<and> (n \<noteq> [] \<longrightarrow>
       (excluida (unir carpeta n) \<longleftrightarrow>
         (\<exists>s e x. n = s @ CHR ''.'' # e \<and> s \<noteq> [] \<and> CHR ''.'' \<notin> set e
               \<and> x \<in> {''jpg'', ''jpeg'', ''png'', ''gif''}
               \<and> list_all2 (\<lambda>c d. c = d \<or> 65 \<le> (of_char c :: nat) \<and> (of_char c :: nat) \<le> 90
                                           \<and> (of_char c :: nat) + 32 = of_char d) e x)))
  \<and> examinar carpeta (''photo.locked.jpg'', f) = []
  \<and> examinar carpeta (''PHOTO.JPG'', f) = []
  \<and> examinar carpeta (''photo.locked.JpEg'', f) = []
  \<and> (\<exists>h. examinar carpeta (''archive.jpg.locked'', f) = [h] \<and> ''extension'' \<in> set (motivos h))
  \<and> \<not> excluida (unir carpeta ''ARCHIVE.JPG.LOCKED'')
  \<and> \<not> excluida (unir carpeta ''photo.jpgx'')
  \<and> \<not> excluida (unir carpeta ''photojpg'')
  \<and> \<not> excluida (unir carpeta ''.jpg'')
  \<and> (\<forall>hs h. recorrer_directorio a = Inr hs \<and> h \<in> set hs \<longrightarrow> \<not> excluida (ruta h))"
proof (intro conjI impI allI)
  assume "excluida (unir carpeta n)"
  then show "examinar carpeta (n, f) = []" by (rule examinar_excl)
next
  assume "\<not> excluida (unir carpeta n)"
  then show "examinar carpeta (n, f) =
         (case analizar_fichero (unir carpeta n) f of None \<Rightarrow> [] | Some info \<Rightarrow> [info])"
    by (rule examinar_no_excl)
next
  assume "n \<noteq> []"
  then show "excluida (unir carpeta n) \<longleftrightarrow>
         (\<exists>s e. n = s @ CHR ''.'' # e \<and> s \<noteq> [] \<and> e \<noteq> [] \<and> CHR ''.'' \<notin> set e
               \<and> lower (CHR ''.'' # e) \<in> set EXCLUIDAS)"
    by (rule excluida_forma)
next
  assume "n \<noteq> []"
  then show "excluida (unir carpeta n) \<longleftrightarrow>
         (\<exists>s e x. n = s @ CHR ''.'' # e \<and> s \<noteq> [] \<and> CHR ''.'' \<notin> set e
               \<and> x \<in> {''jpg'', ''jpeg'', ''png'', ''gif''}
               \<and> list_all2 (\<lambda>c d. c = d \<or> 65 \<le> (of_char c :: nat) \<and> (of_char c :: nat) \<le> 90
                                           \<and> (of_char c :: nat) + 32 = of_char d) e x)"
    by (rule excluida_sin_caja)
next
  show "examinar carpeta (''photo.locked.jpg'', f) = []"
    by (rule examinar_excl [OF excluida_photo])
next
  show "examinar carpeta (''PHOTO.JPG'', f) = []"
    by (rule examinar_excl [OF excluida_mayusculas(1)])
next
  show "examinar carpeta (''photo.locked.JpEg'', f) = []"
    by (rule examinar_excl [OF excluida_mayusculas(2)])
next
  from analizar_extension [OF sospechosa_archive]
  obtain h where "analizar_fichero (unir carpeta ''archive.jpg.locked'') f = Some h"
    and "''extension'' \<in> set (motivos h)" by blast
  with examinar_no_excl [OF excluida_archive, of carpeta f]
  show "\<exists>h. examinar carpeta (''archive.jpg.locked'', f) = [h] \<and> ''extension'' \<in> set (motivos h)"
    by simp
next
  show "\<not> excluida (unir carpeta ''ARCHIVE.JPG.LOCKED'')" by (rule excluida_mayusculas(3))
next
  show "\<not> excluida (unir carpeta ''photo.jpgx'')" by (rule excluida_mayusculas(4))
next
  show "\<not> excluida (unir carpeta ''photojpg'')" by (rule excluida_mayusculas(5))
next
  show "\<not> excluida (unir carpeta ''.jpg'')" by (rule excluida_mayusculas(6))
next
  fix hs h
  assume "recorrer_directorio a = Inr hs \<and> h \<in> set hs"
  then show "\<not> excluida (ruta h)" using recorrer_no_excluida by blast
qed

theorem examinar_excluida_witness:
  "excluida (unir RUTA_BASE ''PHOTO.JPG'')
   \<and> examinar RUTA_BASE (''PHOTO.JPG'', \<lparr>lectura = Inr [], st_size = Inr 0\<rparr>) = []
   \<and> recorrer_directorio (Some (Carpeta [(''archive.jpg.locked'', Fich \<lparr>lectura = Inr [], st_size = Inr 0\<rparr>),
        (''photo.locked.jpg'', Fich \<lparr>lectura = Inr [], st_size = Inr 0\<rparr>)]))
      = Inr [\<lparr>ruta = [''Compartido'', ''archive.jpg.locked''], tamano = 0, entropia = Some 0,
             motivos = [''extension'']\<rparr>]
   \<and> \<not> excluida [''Compartido'', ''archive.jpg.locked'']"
proof -
  let ?f = "\<lparr>lectura = Inr [], st_size = Inr 0\<rparr>"
  let ?a = "Some (Carpeta [(''archive.jpg.locked'', Fich ?f), (''photo.locked.jpg'', Fich ?f)])"
  let ?h = "\<lparr>ruta = [''Compartido'', ''archive.jpg.locked''], tamano = 0, entropia = Some 0,
             motivos = [''extension'']\<rparr>"
  note t = examinar_excluida [of RUTA_BASE "''PHOTO.JPG''" ?f ?a]
  have ne: "''PHOTO.JPG'' \<noteq> []" by simp
  have w: "\<exists>s e x. ''PHOTO.JPG'' = s @ CHR ''.'' # e \<and> s \<noteq> [] \<and> CHR ''.'' \<notin> set e
               \<and> x \<in> {''jpg'', ''jpeg'', ''png'', ''gif''}
               \<and> list_all2 (\<lambda>c d. c = d \<or> 65 \<le> (of_char c :: nat) \<and> (of_char c :: nat) \<le> 90
                                           \<and> (of_char c :: nat) + 32 = of_char d) e x"
    by (rule exI [of _ "''PHOTO''"], rule exI [of _ "''JPG''"], rule exI [of _ "''jpg''"]) simp
  from t have "''PHOTO.JPG'' \<noteq> [] \<longrightarrow>
       (excluida (unir RUTA_BASE ''PHOTO.JPG'') \<longleftrightarrow>
         (\<exists>s e x. ''PHOTO.JPG'' = s @ CHR ''.'' # e \<and> s \<noteq> [] \<and> CHR ''.'' \<notin> set e
               \<and> x \<in> {''jpg'', ''jpeg'', ''png'', ''gif''}
               \<and> list_all2 (\<lambda>c d. c = d \<or> 65 \<le> (of_char c :: nat) \<and> (of_char c :: nat) \<le> 90
                                           \<and> (of_char c :: nat) + 32 = of_char d) e x))"
    by (elim conjE)
  with ne w have x: "excluida (unir RUTA_BASE ''PHOTO.JPG'')" by blast
  from t have "excluida (unir RUTA_BASE ''PHOTO.JPG'')
                 \<longrightarrow> examinar RUTA_BASE (''PHOTO.JPG'', ?f) = []"
    by (elim conjE)
  with x have 1: "examinar RUTA_BASE (''PHOTO.JPG'', ?f) = []" by blast
  have c: "calcular_entropia ?f = Some 0"
    by (simp add: calcular_entropia_def leer_def)
  have an: "analizar_fichero (unir RUTA_BASE ''archive.jpg.locked'') ?f = Some ?h"
    using sospechosa_archive [of RUTA_BASE]
    by (simp add: analizar_fichero_def c UMBRAL_ENTROPIA_def) (simp add: unir_def RUTA_BASE_def)
  have r: "recorrer_directorio ?a = Inr [?h]"
    by (simp add: recorrer_directorio_def caminar_def examinar_excl [OF excluida_photo]
          examinar_no_excl [OF excluida_archive] an)
  from t have 2: "\<forall>hs h. recorrer_directorio ?a = Inr hs \<and> h \<in> set hs \<longrightarrow> \<not> excluida (ruta h)"
    by (elim conjE)
  from 2 r have "\<not> excluida (ruta ?h)" by simp
  with 1 x r show ?thesis by simp
qed

subsection \<open>The quarantine step\<close>

lemma os_rename_permisos:
  "os_rename w a b = Inr w' \<Longrightarrow>
     carpetas w' = carpetas w \<and> sin_busqueda w' = sin_busqueda w \<and> solo_lectura w' = solo_lectura w"
  by (auto simp: os_rename_def split: option.splits if_splits)

lemma copy2_permisos:
  "copy2 w a b = Inr w' \<Longrightarrow>
     carpetas w' = carpetas w \<and> sin_busqueda w' = sin_busqueda w \<and> solo_lectura w' = solo_lectura w"
  by (auto simp: copy2_def split: option.splits if_splits sum.splits)

lemma os_unlink_permisos:
  "os_unlink w a = Inr w' \<Longrightarrow>
     carpetas w' = carpetas w \<and> sin_busqueda w' = sin_busqueda w \<and> solo_lectura w' = solo_lectura w"
  by (auto simp: os_unlink_def split: option.splits if_splits)

lemma shutil_move_permisos_ok:
  "shutil_move w a b = Inr w' \<Longrightarrow>
     carpetas w' = carpetas w \<and> sin_busqueda w' = sin_busqueda w
     \<and> solo_lectura w' = solo_lectura w"
  by (auto simp: shutil_move_def Let_def split: if_splits sum.splits
       dest!: os_rename_permisos copy2_permisos os_unlink_permisos)

lemma shutil_move_permisos_error:
  "shutil_move w a b = Inl (e, w') \<Longrightarrow>
     carpetas w' = carpetas w \<and> sin_busqueda w' = sin_busqueda w
     \<and> solo_lectura w' = solo_lectura w"
  by (auto simp: shutil_move_def Let_def split: if_splits sum.splits
       dest!: os_rename_permisos copy2_permisos os_unlink_permisos)

lemma un_paso_casos:
  "un_paso reloj i s = Inr s' \<longleftrightarrow>
     (\<exists>d. elegir_destino (final s) (reloj i) (ruta (lista s ! i)) = Inr d
        \<and> ((\<exists>w'. shutil_move (final s) (ruta (lista s ! i)) d = Inr w'
                \<and> s' = s\<lparr>final := w', destinos := destinos s @ [d]\<rparr>)
           \<or> (\<exists>e w'. shutil_move (final s) (ruta (lista s ! i)) d = Inl (e, w')
                \<and> s' = s\<lparr>final := w', impreso := impreso s @ [(ruta (lista s ! i), e)]\<rparr>)))"
  by (auto simp: un_paso_def Let_def split: sum.splits prod.splits)

lemma un_paso_lista: "un_paso reloj i s = Inr s' \<Longrightarrow> lista s' = lista s"
  by (auto simp: un_paso_casos)

lemma un_paso_cuenta:
  "un_paso reloj i s = Inr s' \<Longrightarrow>
     length (destinos s') + length (impreso s') = Suc (length (destinos s) + length (impreso s))"
  by (auto simp: un_paso_casos)

lemma un_paso_permisos:
  "un_paso reloj i s = Inr s' \<Longrightarrow>
     carpetas (final s') = carpetas (final s)
     \<and> sin_busqueda (final s') = sin_busqueda (final s)
     \<and> solo_lectura (final s') = solo_lectura (final s)"
  by (auto simp: un_paso_casos dest!: shutil_move_permisos_ok shutil_move_permisos_error)

lemma mover_bucle_fin: "\<not> i < length (lista s) \<Longrightarrow> mover_bucle reloj i s = Inr s"
  by (subst mover_bucle.simps) simp

lemma mover_bucle_paso:
  "i < length (lista s) \<Longrightarrow> un_paso reloj i s = Inr s' \<Longrightarrow>
     mover_bucle reloj i s = mover_bucle reloj (Suc i) s'"
  by (subst mover_bucle.simps) simp

lemma mover_bucle_aborta:
  "i < length (lista s) \<Longrightarrow> un_paso reloj i s = Inl e \<Longrightarrow> mover_bucle reloj i s = Inl e"
  by (subst mover_bucle.simps) simp

lemma mover_bucle_invariantes:
  "mover_bucle reloj i s = Inr r \<Longrightarrow>
     lista r = lista s
     \<and> carpetas (final r) = carpetas (final s)
     \<and> sin_busqueda (final r) = sin_busqueda (final s)
     \<and> solo_lectura (final r) = solo_lectura (final s)
     \<and> length (destinos r) + length (impreso r)
         = length (destinos s) + length (impreso s) + (length (lista s) - i)"
proof (induction reloj i s rule: mover_bucle.induct)
  case (1 reloj i s)
  show ?case
  proof (cases "i < length (lista s)")
    case False
    with "1.prems" have "r = s" by (simp add: mover_bucle_fin)
    with False show ?thesis by simp
  next
    case True
    show ?thesis
    proof (cases "un_paso reloj i s")
      case (Inl e)
      with True "1.prems" show ?thesis by (simp add: mover_bucle_aborta)
    next
      case (Inr s')
      with True "1.prems" have m: "mover_bucle reloj (Suc i) s' = Inr r"
        by (simp add: mover_bucle_paso)
      note ih = "1.IH" [OF True Inr m]
      from un_paso_lista [OF Inr] un_paso_cuenta [OF Inr] un_paso_permisos [OF Inr] ih True
      show ?thesis by auto
    qed
  qed
qed

lemma mover_bucle_traza:
  "mover_bucle reloj i s = Inr r \<Longrightarrow>
     \<exists>ss. length ss = Suc (length (lista s) - i) \<and> ss ! 0 = s
        \<and> ss ! (length (lista s) - i) = r
        \<and> (\<forall>k < length (lista s) - i.
              lista (ss ! k) = lista s \<and> un_paso reloj (i + k) (ss ! k) = Inr (ss ! Suc k))"
proof (induction reloj i s rule: mover_bucle.induct)
  case (1 reloj i s)
  show ?case
  proof (cases "i < length (lista s)")
    case False
    with "1.prems" have "r = s" by (simp add: mover_bucle_fin)
    with False show ?thesis by (intro exI [of _ "[s]"]) simp
  next
    case True
    show ?thesis
    proof (cases "un_paso reloj i s")
      case (Inl e)
      with True "1.prems" show ?thesis by (simp add: mover_bucle_aborta)
    next
      case (Inr s')
      with True "1.prems" have m: "mover_bucle reloj (Suc i) s' = Inr r"
        by (simp add: mover_bucle_paso)
      have l: "lista s' = lista s" by (rule un_paso_lista [OF Inr])
      from "1.IH" [OF True Inr m] l obtain ss where
        a: "length ss = Suc (length (lista s) - Suc i)" and b: "ss ! 0 = s'"
        and c: "ss ! (length (lista s) - Suc i) = r"
        and d: "\<forall>k < length (lista s) - Suc i.
              lista (ss ! k) = lista s \<and> un_paso reloj (Suc i + k) (ss ! k) = Inr (ss ! Suc k)"
        by auto
      have n: "length (lista s) - i = Suc (length (lista s) - Suc i)" using True by simp
      have "\<forall>k < length (lista s) - i.
              lista ((s # ss) ! k) = lista s
              \<and> un_paso reloj (i + k) ((s # ss) ! k) = Inr ((s # ss) ! Suc k)"
      proof (intro allI impI)
        fix k assume k: "k < length (lista s) - i"
        show "lista ((s # ss) ! k) = lista s
              \<and> un_paso reloj (i + k) ((s # ss) ! k) = Inr ((s # ss) ! Suc k)"
        proof (cases k)
          case 0
          with Inr b show ?thesis by simp
        next
          case (Suc j)
          with k n have "j < length (lista s) - Suc i" by simp
          with d Suc show ?thesis by simp
        qed
      qed
      moreover have "length (s # ss) = Suc (length (lista s) - i)" using a n by simp
      moreover have "(s # ss) ! 0 = s" by simp
      moreover have "(s # ss) ! (length (lista s) - i) = r" using c n by simp
      ultimately show ?thesis by blast
    qed
  qed
qed

lemma acceso_hijo:
  "acceso w (RUTA_CUARENTENA @ [x]) =
     (if [] \<in> sin_busqueda w then Some PermissionError
      else if \<not> es_carpeta w RUTA_CUARENTENA
      then (if ficheros w RUTA_CUARENTENA \<noteq> None then Some NotADirectoryError
            else Some FileNotFoundError)
      else if RUTA_CUARENTENA \<in> sin_busqueda w then Some PermissionError
      else None)"
  by (simp add: acceso_def RUTA_CUARENTENA_def es_carpeta_def)

lemma acceso_raiz:
  "acceso w RUTA_CUARENTENA = (if [] \<in> sin_busqueda w then Some PermissionError else None)"
  by (simp add: acceso_def RUTA_CUARENTENA_def es_carpeta_def)

lemma existe_en_cuarentena:
  assumes "[] \<notin> sin_busqueda w" and "RUTA_CUARENTENA \<notin> sin_busqueda w"
  shows "\<exists>b. existe w (unir RUTA_CUARENTENA n) = Inr b"
proof (cases "n = []")
  case True
  then show ?thesis using assms
    by (auto simp: unir_def existe_def os_stat_def acceso_raiz ignorado_def)
next
  case False
  then show ?thesis using assms
    by (auto simp: unir_def existe_def os_stat_def acceso_hijo ignorado_def)
qed

lemma elegir_destino_total:
  assumes "[] \<notin> sin_busqueda w" and "RUTA_CUARENTENA \<notin> sin_busqueda w"
  shows "\<exists>d. elegir_destino w ts p = Inr d"
proof -
  from existe_en_cuarentena [OF assms, of "nombre p"]
  obtain b where "existe w (unir RUTA_CUARENTENA (nombre p)) = Inr b" by blast
  then show ?thesis by (simp add: elegir_destino_def Let_def)
qed

lemma un_paso_total:
  assumes "[] \<notin> sin_busqueda (final s)" and "RUTA_CUARENTENA \<notin> sin_busqueda (final s)"
  shows "\<exists>s'. un_paso reloj i s = Inr s'"
proof -
  from elegir_destino_total [OF assms, of "reloj i" "ruta (lista s ! i)"]
  obtain d where "elegir_destino (final s) (reloj i) (ruta (lista s ! i)) = Inr d" by blast
  then show ?thesis
    by (cases "shutil_move (final s) (ruta (lista s ! i)) d")
       (auto simp: un_paso_def Let_def)
qed

lemma mover_bucle_total:
  "[] \<notin> sin_busqueda (final s) \<Longrightarrow> RUTA_CUARENTENA \<notin> sin_busqueda (final s) \<Longrightarrow>
     \<exists>r. mover_bucle reloj i s = Inr r"
proof (induction reloj i s rule: mover_bucle.induct)
  case (1 reloj i s)
  show ?case
  proof (cases "i < length (lista s)")
    case False
    then show ?thesis by (simp add: mover_bucle_fin)
  next
    case True
    from un_paso_total [OF "1.prems"] obtain s' where s': "un_paso reloj i s = Inr s'"
      by blast
    from un_paso_permisos [OF s'] "1.prems"
    have "[] \<notin> sin_busqueda (final s')" "RUTA_CUARENTENA \<notin> sin_busqueda (final s')"
      by simp_all
    from "1.IH" [OF True s' this] mover_bucle_paso [OF True s'] show ?thesis by simp
  qed
qed

lemma mkdir_camino_permisos:
  "mkdir_camino w qs = Inr w' \<Longrightarrow>
     ficheros w' = ficheros w \<and> sin_busqueda w' = sin_busqueda w
     \<and> solo_lectura w' = solo_lectura w \<and> carpetas w \<subseteq> carpetas w'"
proof (induction qs arbitrary: w)
  case Nil
  then show ?case by simp
next
  case (Cons q qs)
  show ?case
  proof (cases "es_carpeta w q")
    case True
    with Cons.prems have "mkdir_camino w qs = Inr w'" by (simp split: if_splits)
    from Cons.IH [OF this] show ?thesis .
  next
    case False
    with Cons.prems have "mkdir_camino (w\<lparr>carpetas := insert q (carpetas w)\<rparr>) qs = Inr w'"
      by (simp split: if_splits)
    from Cons.IH [OF this] show ?thesis by auto
  qed
qed

lemma asegurar_permisos:
  "asegurar_cuarentena w = Inr w1 \<Longrightarrow>
     ficheros w1 = ficheros w \<and> sin_busqueda w1 = sin_busqueda w
     \<and> solo_lectura w1 = solo_lectura w \<and> carpetas w \<subseteq> carpetas w1"
  by (auto simp: asegurar_cuarentena_def mkdir_parents_def split: sum.splits if_splits
       dest!: mkdir_camino_permisos)

lemmas cuarentena_eval = asegurar_cuarentena_def existe_def os_stat_def
  acceso_def ignorado_def es_carpeta_def os_path_exists_def os_path_isdir_def mkdir_parents_def
  os_rename_def copy2_def os_unlink_def shutil_move_def elegir_destino_def un_paso_def
  unir_def nombre_def Let_def stem_de_def suffix_de_def RUTA_CUARENTENA_def hallazgo_de_def
  reloj_fijo_def

lemma mover_a_cuarentena_Inr:
  "asegurar_cuarentena w = Inr w1 \<Longrightarrow>
     mover_a_cuarentena reloj sospechosos w
       = mover_bucle reloj 0 \<lparr>lista = sospechosos, final = w1, destinos = [], impreso = []\<rparr>"
  by (simp add: mover_a_cuarentena_def)

lemma mkdir_parents_raiz:
  "mkdir_parents w RUTA_CUARENTENA =
     (if [] \<in> sin_busqueda w then Inl PermissionError
      else if RUTA_CUARENTENA \<in> carpetas w then Inr w
      else if ficheros w RUTA_CUARENTENA \<noteq> None then Inl FileExistsError
      else if [] \<in> solo_lectura w then Inl PermissionError
      else Inr (w\<lparr>carpetas := insert RUTA_CUARENTENA (carpetas w)\<rparr>))"
  by (simp add: mkdir_parents_def RUTA_CUARENTENA_def es_carpeta_def)

lemma existe_raiz:
  "existe w RUTA_CUARENTENA =
     (if [] \<in> sin_busqueda w then Inl PermissionError
      else Inr (RUTA_CUARENTENA \<in> carpetas w \<or> ficheros w RUTA_CUARENTENA \<noteq> None))"
  by (auto simp: existe_def os_stat_def acceso_def ignorado_def es_carpeta_def
        RUTA_CUARENTENA_def)

lemma asegurar_cuarentena_casos:
  "asegurar_cuarentena w =
     (if [] \<in> sin_busqueda w then Inl PermissionError
      else if RUTA_CUARENTENA \<in> carpetas w \<or> ficheros w RUTA_CUARENTENA \<noteq> None then Inr w
      else if [] \<in> solo_lectura w then Inl PermissionError
      else Inr (w\<lparr>carpetas := insert RUTA_CUARENTENA (carpetas w)\<rparr>))"
  by (auto simp: asegurar_cuarentena_def existe_raiz mkdir_parents_raiz)

lemma asegurar_cerrada:
  assumes "asegurar_cuarentena w = Inr w1" and "ficheros w RUTA_CUARENTENA = None"
    and "[] \<notin> sin_busqueda w"
  shows "RUTA_CUARENTENA \<in> carpetas w1"
  using assms by (auto simp: asegurar_cuarentena_casos split: if_splits)

lemma elegir_destino_cerrada:
  assumes "RUTA_CUARENTENA \<in> carpetas w" and "RUTA_CUARENTENA \<in> sin_busqueda w"
    and "[] \<notin> sin_busqueda w" and "nombre p \<noteq> []"
  shows "elegir_destino w ts p = Inl PermissionError"
  using assms
  by (simp add: elegir_destino_def Let_def unir_def existe_def os_stat_def acceso_hijo
        es_carpeta_def ignorado_def)

text \<open>
  Claim C1, as the code has it, for a file table on which the first two lines of the
  function have returned. The collision test \<^verbatim>\<open>destino.exists()\<close> stands outside the
  \<^verbatim>\<open>try\<close>, so the statement has two parts.

  When the quarantine directory can be searched, the function returns for every list of
  findings, and its run is a sequence of states, one step per finding and in the order of
  the list. At each step a destination is chosen for the finding, and either the move to
  that destination succeeds and exactly that destination is appended to the returned
  list, or the move raises and exactly one line is printed, with the source and the
  error, and nothing is appended. So every finding yields exactly one outcome, the
  destinations and the printed lines together count the findings, and a failed move does
  not stop the loop; but a failed move leaves no entry in the returned list.

  When the quarantine directory is there and cannot be searched, the collision test of
  the first finding raises \<^verbatim>\<open>PermissionError\<close>, which leaves the function: no finding is
  processed.
\<close>

theorem mover_a_cuarentena_un_resultado:
  assumes "asegurar_cuarentena w = Inr w1"
  shows "(RUTA_CUARENTENA \<notin> sin_busqueda w \<longrightarrow>
            (\<exists>r ss. mover_a_cuarentena reloj sospechosos w = Inr r
               \<and> length ss = Suc (length sospechosos)
               \<and> ss ! 0 = \<lparr>lista = sospechosos, final = w1, destinos = [], impreso = []\<rparr>
               \<and> ss ! length sospechosos = r
               \<and> lista r = sospechosos
               \<and> length (destinos r) + length (impreso r) = length sospechosos
               \<and> (\<forall>k < length sospechosos.
                    \<exists>d. elegir_destino (final (ss ! k)) (reloj k) (ruta (sospechosos ! k)) = Inr d
                       \<and> ((\<exists>w'. shutil_move (final (ss ! k)) (ruta (sospechosos ! k)) d = Inr w'
                              \<and> ss ! Suc k
                                  = (ss ! k)\<lparr>final := w', destinos := destinos (ss ! k) @ [d]\<rparr>)
                          \<or> (\<exists>e w'. shutil_move (final (ss ! k)) (ruta (sospechosos ! k)) d
                                       = Inl (e, w')
                              \<and> ss ! Suc k
                                  = (ss ! k)\<lparr>final := w',
                                       impreso := impreso (ss ! k)
                                                    @ [(ruta (sospechosos ! k), e)]\<rparr>)))))
       \<and> (RUTA_CUARENTENA \<in> sin_busqueda w \<and> ficheros w RUTA_CUARENTENA = None
            \<and> sospechosos \<noteq> [] \<and> nombre (ruta (sospechosos ! 0)) \<noteq> [] \<longrightarrow>
            mover_a_cuarentena reloj sospechosos w = Inl PermissionError)"
proof (intro conjI impI)
  let ?s = "\<lparr>lista = sospechosos, final = w1, destinos = [], impreso = []\<rparr>"
  note m = mover_a_cuarentena_Inr [OF assms, of reloj sospechosos]
  note p = asegurar_permisos [OF assms]
  have n: "[] \<notin> sin_busqueda w"
    using assms by (auto simp: asegurar_cuarentena_casos split: if_splits)
  {
    assume q: "RUTA_CUARENTENA \<notin> sin_busqueda w"
    have "[] \<notin> sin_busqueda (final ?s)" "RUTA_CUARENTENA \<notin> sin_busqueda (final ?s)"
      using p n q by simp_all
    from mover_bucle_total [OF this, of reloj 0]
    obtain r where r: "mover_bucle reloj 0 ?s = Inr r" by blast
    from mover_bucle_traza [OF r] obtain ss where
      l: "length ss = Suc (length sospechosos)" and z: "ss ! 0 = ?s"
      and f: "ss ! length sospechosos = r"
      and t: "\<forall>k < length sospechosos.
              lista (ss ! k) = sospechosos \<and> un_paso reloj k (ss ! k) = Inr (ss ! Suc k)"
      by auto
    from mover_bucle_invariantes [OF r]
    have i: "lista r = sospechosos"
      and c: "length (destinos r) + length (impreso r) = length sospechosos"
      by simp_all
    have u: "\<forall>k < length sospechosos.
                    \<exists>d. elegir_destino (final (ss ! k)) (reloj k) (ruta (sospechosos ! k)) = Inr d
                       \<and> ((\<exists>w'. shutil_move (final (ss ! k)) (ruta (sospechosos ! k)) d = Inr w'
                              \<and> ss ! Suc k
                                  = (ss ! k)\<lparr>final := w', destinos := destinos (ss ! k) @ [d]\<rparr>)
                          \<or> (\<exists>e w'. shutil_move (final (ss ! k)) (ruta (sospechosos ! k)) d
                                       = Inl (e, w')
                              \<and> ss ! Suc k
                                  = (ss ! k)\<lparr>final := w',
                                       impreso := impreso (ss ! k)
                                                    @ [(ruta (sospechosos ! k), e)]\<rparr>))"
    proof (intro allI impI)
      fix k assume "k < length sospechosos"
      with t have a: "lista (ss ! k) = sospechosos"
        and b: "un_paso reloj k (ss ! k) = Inr (ss ! Suc k)" by simp_all
      from b [unfolded un_paso_casos a]
      show "\<exists>d. elegir_destino (final (ss ! k)) (reloj k) (ruta (sospechosos ! k)) = Inr d
                       \<and> ((\<exists>w'. shutil_move (final (ss ! k)) (ruta (sospechosos ! k)) d = Inr w'
                              \<and> ss ! Suc k
                                  = (ss ! k)\<lparr>final := w', destinos := destinos (ss ! k) @ [d]\<rparr>)
                          \<or> (\<exists>e w'. shutil_move (final (ss ! k)) (ruta (sospechosos ! k)) d
                                       = Inl (e, w')
                              \<and> ss ! Suc k
                                  = (ss ! k)\<lparr>final := w',
                                       impreso := impreso (ss ! k)
                                                    @ [(ruta (sospechosos ! k), e)]\<rparr>))" .
    qed
    from r l z f i c u
    show "\<exists>r ss. mover_a_cuarentena reloj sospechosos w = Inr r
               \<and> length ss = Suc (length sospechosos)
               \<and> ss ! 0 = \<lparr>lista = sospechosos, final = w1, destinos = [], impreso = []\<rparr>
               \<and> ss ! length sospechosos = r
               \<and> lista r = sospechosos
               \<and> length (destinos r) + length (impreso r) = length sospechosos
               \<and> (\<forall>k < length sospechosos.
                    \<exists>d. elegir_destino (final (ss ! k)) (reloj k) (ruta (sospechosos ! k)) = Inr d
                       \<and> ((\<exists>w'. shutil_move (final (ss ! k)) (ruta (sospechosos ! k)) d = Inr w'
                              \<and> ss ! Suc k
                                  = (ss ! k)\<lparr>final := w', destinos := destinos (ss ! k) @ [d]\<rparr>)
                          \<or> (\<exists>e w'. shutil_move (final (ss ! k)) (ruta (sospechosos ! k)) d
                                       = Inl (e, w')
                              \<and> ss ! Suc k
                                  = (ss ! k)\<lparr>final := w',
                                       impreso := impreso (ss ! k)
                                                    @ [(ruta (sospechosos ! k), e)]\<rparr>)))"
      unfolding m by blast
  }
  {
    assume h: "RUTA_CUARENTENA \<in> sin_busqueda w \<and> ficheros w RUTA_CUARENTENA = None
            \<and> sospechosos \<noteq> [] \<and> nombre (ruta (sospechosos ! 0)) \<noteq> []"
    have c: "RUTA_CUARENTENA \<in> carpetas w1"
      using asegurar_cerrada [OF assms _ n] h by simp
    have "elegir_destino w1 (reloj 0) (ruta (sospechosos ! 0)) = Inl PermissionError"
      using elegir_destino_cerrada [OF c] p h n by simp
    then have "un_paso reloj 0 ?s = Inl PermissionError"
      by (simp add: un_paso_def Let_def)
    from mover_bucle_aborta [OF _ this] h
    show "mover_a_cuarentena reloj sospechosos w = Inl PermissionError"
      unfolding m by simp
  }
qed

text \<open>
  An instance of each part. With a read-only source directory the first move copies the
  file and cannot remove the source: the line is printed, the copy stays in quarantine
  and the second finding, which meets it, gets a timestamped name. With a quarantine
  directory that cannot be searched the function raises.
\<close>

theorem mover_a_cuarentena_un_resultado_witness:
  "asegurar_cuarentena mundo_solo_lectura = Inr mundo_solo_lectura
   \<and> (\<exists>r. mover_a_cuarentena reloj_fijo
             [hallazgo_de [''Compartido'', ''a'', ''x.locked''],
              hallazgo_de [''Compartido'', ''b'', ''x.locked'']] mundo_solo_lectura = Inr r
          \<and> destinos r = [[''cuarentena_ransomware'', ''x_20240101000000.locked'']]
          \<and> impreso r = [([''Compartido'', ''a'', ''x.locked''], PermissionError)]
          \<and> ficheros (final r) [''Compartido'', ''a'', ''x.locked''] = Some fichero_a
          \<and> ficheros (final r) [''cuarentena_ransomware'', ''x.locked''] = Some fichero_a
          \<and> ficheros (final r) [''cuarentena_ransomware'', ''x_20240101000000.locked'']
              = Some fichero_b
          \<and> length (destinos r) + length (impreso r) = 2)
   \<and> asegurar_cuarentena mundo_cerrado = Inr mundo_cerrado
   \<and> mover_a_cuarentena reloj_fijo
        [hallazgo_de [''Compartido'', ''a'', ''x.locked''],
         hallazgo_de [''Compartido'', ''b'', ''x.locked'']] mundo_cerrado = Inl PermissionError"
proof -
  let ?pa = "[''Compartido'', ''a'', ''x.locked'']"
  let ?pb = "[''Compartido'', ''b'', ''x.locked'']"
  let ?hs = "[hallazgo_de ?pa, hallazgo_de ?pb]"
  define s0 where "s0 = \<lparr>lista = ?hs, final = mundo_solo_lectura, destinos = [], impreso = []\<rparr>"
  define s1 where "s1 = s0\<lparr>final := mundo_solo_lectura\<lparr>ficheros :=
                     (ficheros mundo_solo_lectura)([''cuarentena_ransomware'', ''x.locked'']
                        \<mapsto> fichero_a)\<rparr>,
                   impreso := [(?pa, PermissionError)]\<rparr>"
  define s2 where "s2 = s1\<lparr>final := (final s1)\<lparr>ficheros :=
                     ((ficheros (final s1))(?pb := None))
                       ([''cuarentena_ransomware'', ''x_20240101000000.locked''] \<mapsto> fichero_b)\<rparr>,
                   destinos := [[''cuarentena_ransomware'', ''x_20240101000000.locked'']]\<rparr>"
  have a: "asegurar_cuarentena mundo_solo_lectura = Inr mundo_solo_lectura"
    by (simp add: asegurar_cuarentena_casos mundo_solo_lectura_def mundo_ej_def)
  have n: "RUTA_CUARENTENA \<notin> sin_busqueda mundo_solo_lectura"
    by (simp add: mundo_solo_lectura_def mundo_ej_def)
  have p0: "un_paso reloj_fijo 0 s0 = Inr s1"
    by (simp add: s0_def s1_def cuarentena_eval mundo_solo_lectura_def mundo_ej_def
          fichero_a_def)
  have p1: "un_paso reloj_fijo (Suc 0) s1 = Inr s2"
    by (simp add: s0_def s1_def s2_def cuarentena_eval mundo_solo_lectura_def mundo_ej_def
          fichero_a_def)
  have l: "lista s0 = ?hs" "lista s1 = ?hs" "lista s2 = ?hs"
    by (simp_all add: s0_def s1_def s2_def)
  have b: "mover_bucle reloj_fijo 0 s0 = Inr s2"
    by (simp add: mover_bucle_paso [OF _ p0] mover_bucle_paso [OF _ p1] mover_bucle_fin l)
  have m: "mover_a_cuarentena reloj_fijo ?hs mundo_solo_lectura = Inr s2"
    using mover_a_cuarentena_Inr [OF a, of reloj_fijo ?hs] b by (simp add: s0_def)
  have d: "destinos s2 = [[''cuarentena_ransomware'', ''x_20240101000000.locked'']]"
    and i: "impreso s2 = [(?pa, PermissionError)]"
    and f1: "ficheros (final s2) ?pa = Some fichero_a"
    and f2: "ficheros (final s2) [''cuarentena_ransomware'', ''x.locked''] = Some fichero_a"
    and f3: "ficheros (final s2) [''cuarentena_ransomware'', ''x_20240101000000.locked'']
              = Some fichero_b"
    by (simp_all add: s0_def s1_def s2_def mundo_solo_lectura_def mundo_ej_def)
  have a': "asegurar_cuarentena mundo_cerrado = Inr mundo_cerrado"
    by (simp add: asegurar_cuarentena_casos mundo_cerrado_def mundo_ej_def RUTA_CUARENTENA_def)
  have h': "RUTA_CUARENTENA \<in> sin_busqueda mundo_cerrado
            \<and> ficheros mundo_cerrado RUTA_CUARENTENA = None
            \<and> ?hs \<noteq> [] \<and> nombre (ruta (?hs ! 0)) \<noteq> []"
    by (simp add: mundo_cerrado_def mundo_ej_def RUTA_CUARENTENA_def hallazgo_de_def nombre_def)
  from mover_a_cuarentena_un_resultado [OF a, where reloj = reloj_fijo and sospechosos = ?hs] n
  obtain r where r: "mover_a_cuarentena reloj_fijo ?hs mundo_solo_lectura = Inr r"
    and c: "length (destinos r) + length (impreso r) = length ?hs"
    by blast
  from r m have e: "r = s2" by simp
  from mover_a_cuarentena_un_resultado [OF a', where reloj = reloj_fijo and sospechosos = ?hs] h'
  have x: "mover_a_cuarentena reloj_fijo ?hs mundo_cerrado = Inl PermissionError"
    by blast
  have c2: "length (destinos s2) + length (impreso s2) = 2"
    using c e by simp
  show ?thesis
    by (intro conjI exI [of _ s2] a m d i f1 f2 f3 c2 a' x)
qed

text \<open>
  Claim C1 as stated fails. A single finding whose source is gone gives an empty list of
  destinations: the failure only appears in the printed line. And with a quarantine
  directory that cannot be searched, the function raises at the first finding, while the
  file of the second finding is there to be moved.
\<close>

theorem mover_a_cuarentena_pierde_fallo:
  "(\<exists>r. mover_a_cuarentena reloj_fijo [hallazgo_de [''Compartido'', ''c'', ''x.locked'']] mundo_ej
           = Inr r
       \<and> destinos r = []
       \<and> impreso r = [([''Compartido'', ''c'', ''x.locked''], FileNotFoundError)])
   \<and> mover_a_cuarentena reloj_fijo
        [hallazgo_de [''Compartido'', ''a'', ''x.locked''],
         hallazgo_de [''Compartido'', ''b'', ''x.locked'']] mundo_cerrado = Inl PermissionError
   \<and> ficheros mundo_cerrado [''Compartido'', ''b'', ''x.locked''] = Some fichero_b"
proof -
  let ?pc = "[''Compartido'', ''c'', ''x.locked'']"
  let ?hs = "[hallazgo_de [''Compartido'', ''a'', ''x.locked''],
              hallazgo_de [''Compartido'', ''b'', ''x.locked'']]"
  define s0 where "s0 = \<lparr>lista = [hallazgo_de ?pc], final = mundo_ej, destinos = [], impreso = []\<rparr>"
  define s1 where "s1 = s0\<lparr>final := mundo_ej, impreso := [(?pc, FileNotFoundError)]\<rparr>"
  have a: "asegurar_cuarentena mundo_ej = Inr mundo_ej"
    by (simp add: asegurar_cuarentena_casos mundo_ej_def)
  have p0: "un_paso reloj_fijo 0 s0 = Inr s1"
    by (simp add: s0_def s1_def cuarentena_eval mundo_ej_def)
  have l: "lista s0 = [hallazgo_de ?pc]" "lista s1 = [hallazgo_de ?pc]"
    by (simp_all add: s0_def s1_def)
  have b: "mover_bucle reloj_fijo 0 s0 = Inr s1"
    by (simp add: mover_bucle_paso [OF _ p0] mover_bucle_fin l)
  have m: "mover_a_cuarentena reloj_fijo [hallazgo_de ?pc] mundo_ej = Inr s1"
    using mover_a_cuarentena_Inr [OF a, of reloj_fijo "[hallazgo_de ?pc]"] b
    by (simp add: s0_def)
  have d: "destinos s1 = []" and i: "impreso s1 = [(?pc, FileNotFoundError)]"
    by (simp_all add: s0_def s1_def)
  define t0 where "t0 = \<lparr>lista = ?hs, final = mundo_cerrado, destinos = [], impreso = []\<rparr>"
  have a': "asegurar_cuarentena mundo_cerrado = Inr mundo_cerrado"
    by (simp add: asegurar_cuarentena_casos mundo_cerrado_def mundo_ej_def RUTA_CUARENTENA_def)
  have q0: "un_paso reloj_fijo 0 t0 = Inl PermissionError"
    by (simp add: t0_def cuarentena_eval mundo_cerrado_def mundo_ej_def)
  have "mover_bucle reloj_fijo 0 t0 = Inl PermissionError"
    by (rule mover_bucle_aborta [OF _ q0]) (simp add: t0_def)
  then have x: "mover_a_cuarentena reloj_fijo ?hs mundo_cerrado = Inl PermissionError"
    using mover_a_cuarentena_Inr [OF a', of reloj_fijo ?hs] by (simp add: t0_def)
  have f: "ficheros mundo_cerrado [''Compartido'', ''b'', ''x.locked''] = Some fichero_b"
    by (simp add: mundo_cerrado_def mundo_ej_def)
  show ?thesis
    by (intro conjI exI [of _ s1] m d i x f)
qed

text \<open>
  Claim C3 fails in the code. The quarantine directory already holds \<^verbatim>\<open>x.locked\<close>, the
  findings are \<^verbatim>\<open>a/x.locked\<close> and \<^verbatim>\<open>b/x.locked\<close>, and both moves fall in the same second.
  Both findings get the destination \<^verbatim>\<open>x_20240101000000.locked\<close>, both moves succeed, the
  returned list holds that path twice, the file of the second finding stands at that
  path, and the file of the first finding is nowhere in the table.
\<close>

theorem mover_a_cuarentena_mismo_segundo:
  "\<exists>r. mover_a_cuarentena reloj_fijo
          [hallazgo_de [''Compartido'', ''a'', ''x.locked''],
           hallazgo_de [''Compartido'', ''b'', ''x.locked'']] mundo_repetido = Inr r
       \<and> destinos r = [[''cuarentena_ransomware'', ''x_20240101000000.locked''],
                        [''cuarentena_ransomware'', ''x_20240101000000.locked'']]
       \<and> impreso r = []
       \<and> ficheros (final r) [''cuarentena_ransomware'', ''x_20240101000000.locked'']
            = Some fichero_b
       \<and> ficheros (final r) [''cuarentena_ransomware'', ''x.locked''] = Some fichero_c
       \<and> ficheros (final r) [''Compartido'', ''a'', ''x.locked''] = None
       \<and> ficheros (final r) [''Compartido'', ''b'', ''x.locked''] = None
       \<and> (\<forall>p. ficheros (final r) p \<noteq> Some fichero_a)"
proof -
  let ?pa = "[''Compartido'', ''a'', ''x.locked'']"
  let ?pb = "[''Compartido'', ''b'', ''x.locked'']"
  let ?d = "[''cuarentena_ransomware'', ''x_20240101000000.locked'']"
  let ?hs = "[hallazgo_de ?pa, hallazgo_de ?pb]"
  define s0 where "s0 = \<lparr>lista = ?hs, final = mundo_repetido, destinos = [], impreso = []\<rparr>"
  define s1 where "s1 = s0\<lparr>final := mundo_repetido\<lparr>ficheros :=
                     ((ficheros mundo_repetido)(?pa := None))(?d \<mapsto> fichero_a)\<rparr>,
                   destinos := [?d]\<rparr>"
  define s2 where "s2 = s1\<lparr>final := (final s1)\<lparr>ficheros :=
                     ((ficheros (final s1))(?pb := None))(?d \<mapsto> fichero_b)\<rparr>,
                   destinos := [?d, ?d]\<rparr>"
  have a: "asegurar_cuarentena mundo_repetido = Inr mundo_repetido"
    by (simp add: asegurar_cuarentena_casos mundo_repetido_def mundo_ej_def)
  have p0: "un_paso reloj_fijo 0 s0 = Inr s1"
    by (simp add: s0_def s1_def cuarentena_eval mundo_repetido_def mundo_ej_def)
  have p1: "un_paso reloj_fijo (Suc 0) s1 = Inr s2"
    by (simp add: s0_def s1_def s2_def cuarentena_eval mundo_repetido_def mundo_ej_def)
  have l: "lista s0 = ?hs" "lista s1 = ?hs" "lista s2 = ?hs"
    by (simp_all add: s0_def s1_def s2_def)
  have b: "mover_bucle reloj_fijo 0 s0 = Inr s2"
    by (simp add: mover_bucle_paso [OF _ p0] mover_bucle_paso [OF _ p1] mover_bucle_fin l)
  have m: "mover_a_cuarentena reloj_fijo ?hs mundo_repetido = Inr s2"
    using mover_a_cuarentena_Inr [OF a, of reloj_fijo ?hs] b by (simp add: s0_def)
  have d: "destinos s2 = [?d, ?d]" and i: "impreso s2 = []"
    and f1: "ficheros (final s2) ?d = Some fichero_b"
    and f2: "ficheros (final s2) [''cuarentena_ransomware'', ''x.locked''] = Some fichero_c"
    and f3: "ficheros (final s2) ?pa = None"
    and f4: "ficheros (final s2) ?pb = None"
    by (simp_all add: s0_def s1_def s2_def mundo_repetido_def mundo_ej_def)
  have f5: "\<forall>p. ficheros (final s2) p \<noteq> Some fichero_a"
    by (simp add: s0_def s1_def s2_def mundo_repetido_def mundo_ej_def
          fichero_a_def fichero_b_def fichero_c_def)
  show ?thesis
    by (intro conjI exI [of _ s2] m d i f1 f2 f3 f4 f5)
qed





subsection \<open>The entry point\<close>






subsection \<open>The value of the estimator\<close>

lemma unat_byte_lt: "unat (b :: byte) < 256"
  using unsigned_less [of b, where ?'a = nat] by simp

lemma contar_paso_length:
  "length (foldl (\<lambda>fr b. fr[unat b := fr ! unat b + 1]) fr datos) = length fr"
  by (induction datos arbitrary: fr) simp_all

lemma contar_paso_nth:
  "length fr = 256 \<Longrightarrow> i < 256 \<Longrightarrow>
     foldl (\<lambda>fr (b :: byte). fr[unat b := fr ! unat b + 1]) fr datos ! i
       = fr ! i + length (filter (\<lambda>b. unat b = i) datos)"
proof (induction datos arbitrary: fr)
  case Nil
  show ?case by simp
next
  case (Cons b datos)
  have l: "length (fr[unat b := fr ! unat b + 1]) = 256" using Cons.prems by simp
  from Cons.IH [OF l Cons.prems(2)] Cons.prems unat_byte_lt [of b]
  show ?case by (auto simp: nth_list_update)
qed

lemma contar_length: "length (contar datos) = 256"
  by (simp only: contar_def contar_paso_length length_replicate)

lemma contar_nth:
  "contar datos ! unat (b :: byte) = count_list datos b"
proof -
  have "contar datos ! unat b = length (filter (\<lambda>c. unat c = unat b) datos)"
    unfolding contar_def
    using contar_paso_nth [of "replicate 256 0" "unat b" datos] unat_byte_lt [of b]
    by (simp only: length_replicate nth_replicate add_0)
  also have "(\<lambda>c. unat c = unat b) = ((=) b)"
    by (auto simp: word_unat_eq_iff)
  finally show ?thesis by (simp add: count_list_eq_length_filter)
qed

lemma foldl_acumular:
  "foldl (acumular n) e xs = e - sum_list (map (termino n) xs)"
  by (induction xs arbitrary: e) (simp_all add: acumular_def termino_def)

lemma bij_unat_byte: "bij_betw (unat :: byte \<Rightarrow> nat) UNIV {..<256}"
proof (rule bij_betw_byWitness [where f' = of_nat])
  show "\<forall>a \<in> (UNIV :: byte set). of_nat (unat a) = a" by simp
  show "\<forall>a' \<in> {..<256}. unat (of_nat a' :: byte) = a'" by (simp add: unat_of_nat)
  show "unat ` (UNIV :: byte set) \<subseteq> {..<256}" using unat_byte_lt by auto
  show "of_nat ` {..<256::nat} \<subseteq> (UNIV :: byte set)" by simp
qed

lemma entropia_de_suma:
  "entropia_de datos = - (\<Sum>b \<in> (UNIV :: byte set). termino (length datos) (count_list datos b))"
proof -
  have "entropia_de datos = - sum_list (map (termino (length datos)) (contar datos))"
    by (simp add: entropia_de_def foldl_acumular)
  also have "sum_list (map (termino (length datos)) (contar datos))
      = (\<Sum>i < 256. termino (length datos) (contar datos ! i))"
    by (simp add: sum_list_sum_nth contar_length atLeast0LessThan)
  also have "\<dots> = (\<Sum>b \<in> (UNIV :: byte set). termino (length datos) (contar datos ! unat b))"
    by (rule sum.reindex_bij_betw [OF bij_unat_byte, symmetric])
  finally show ?thesis by (simp add: contar_nth)
qed

lemma entropia_de_shannon: "entropia_de datos = shannon datos"
proof -
  have "(\<Sum>b \<in> (UNIV :: byte set). termino (length datos) (count_list datos b))
      = (\<Sum>b \<in> {b. count_list datos b \<noteq> 0}. termino (length datos) (count_list datos b))"
    by (rule sum.mono_neutral_right) (auto simp: termino_def)
  also have "\<dots> = (\<Sum>b \<in> {b. count_list datos b \<noteq> 0}.
                      frecuencia datos b * log 2 (frecuencia datos b))"
    by (rule sum.cong) (auto simp: termino_def frecuencia_def)
  finally show ?thesis by (simp add: entropia_de_suma shannon_def)
qed

lemma suma_cuentas: "(\<Sum>b \<in> (UNIV :: byte set). count_list datos b) = length datos"
  by (rule sum_count_set) simp_all

lemma suma_frecuencias:
  assumes "datos \<noteq> []"
  shows "(\<Sum>b \<in> (UNIV :: byte set). real (count_list datos b) / real (length datos)) = 1"
proof -
  have "(\<Sum>b \<in> (UNIV :: byte set). real (count_list datos b) / real (length datos))
      = real (\<Sum>b \<in> (UNIV :: byte set). count_list datos b) / real (length datos)"
    by (simp add: sum_divide_distrib)
  also have "\<dots> = 1" using assms by (simp add: suma_cuentas)
  finally show ?thesis .
qed

lemma termino_p:
  "c \<noteq> 0 \<Longrightarrow> termino n c = (real c / real n) * log 2 (real c / real n)"
  by (simp only: termino_def if_False)

lemma termino_no_positivo:
  assumes "c \<le> n"
  shows "termino n c \<le> 0"
proof (cases "c = 0")
  case True
  then show ?thesis by (simp add: termino_def)
next
  case False
  with assms have n: "0 < n" by simp
  define p where "p = real c / real n"
  have p: "0 < p" "p \<le> 1" using False assms n by (simp_all add: p_def)
  then have "log 2 p \<le> 0" by simp
  with p(1) have "p * log 2 p \<le> 0" by (simp add: mult_le_0_iff)
  then show ?thesis unfolding termino_p [OF False] p_def .
qed

lemma log2_256: "log 2 256 = 8"
proof -
  have "log 2 (2 ^ 8) = (8 :: real)" by (simp only: log_pow_cancel)
  then show ?thesis by simp
qed

lemma ln_256: "ln (256 :: real) = 8 * ln 2"
proof -
  have "ln ((2 :: real) ^ 8) = 8 * ln 2" by (simp only: ln_realpow)
  then show ?thesis by simp
qed

lemma p_cota:
  fixes p :: real
  assumes p: "0 < p"
  shows "- (p * log 2 p) \<le> 8 * p + (1 / 256 - p) / ln 2"
proof -
  have l2: "0 < ln (2 :: real)" by simp
  have q: "0 < 1 / (256 * p)" using p by simp
  have "ln (1 / (256 * p)) \<le> 1 / (256 * p) - 1"
    using q by (rule ln_le_minus_one)
  then have "p * ln (1 / (256 * p)) \<le> p * (1 / (256 * p) - 1)"
    using p by (intro mult_left_mono) simp_all
  also have "p * (1 / (256 * p) - 1) = 1 / 256 - p"
    using p by (simp add: field_simps)
  finally have a: "p * ln (1 / (256 * p)) \<le> 1 / 256 - p" .
  have "ln (1 / (256 * p)) = - (8 * ln 2) - ln p"
    using p by (simp add: ln_div ln_mult ln_256)
  with a have "p * (- (8 * ln 2) - ln p) \<le> 1 / 256 - p" by simp
  then have b: "- (p * ln p) \<le> 8 * p * ln 2 + (1 / 256 - p)"
    by (simp add: algebra_simps)
  have "- (p * log 2 p) = - (p * ln p) / ln 2" by (simp add: log_def)
  also have "\<dots> \<le> (8 * p * ln 2 + (1 / 256 - p)) / ln 2"
    using l2 b by (intro divide_right_mono) simp_all
  also have "\<dots> = 8 * p + (1 / 256 - p) / ln 2"
    using l2 by (simp add: add_divide_distrib)
  finally show ?thesis .
qed

lemma termino_cota:
  assumes "0 < n"
  shows "- termino n c \<le> 8 * (real c / real n) + (1 / 256 - real c / real n) / ln 2"
proof (cases "c = 0")
  case True
  then show ?thesis by (simp add: termino_def)
next
  case False
  have "0 < real c / real n" using False assms by simp
  from p_cota [OF this] show ?thesis unfolding termino_p [OF False] .
qed

lemma entropia_de_no_negativa: "0 \<le> entropia_de datos"
proof -
  have "\<And>b. count_list datos b \<le> length datos"
    by (simp add: count_list_eq_length_filter)
  then have "(\<Sum>b \<in> (UNIV :: byte set). termino (length datos) (count_list datos b)) \<le> 0"
    by (intro sum_nonpos termino_no_positivo)
  then show ?thesis by (simp add: entropia_de_suma)
qed

lemma card_byte: "card (UNIV :: byte set) = 256"
  by (simp add: card_word)

lemma entropia_de_cota:
  assumes "datos \<noteq> []"
  shows "entropia_de datos \<le> 8"
proof -
  let ?n = "length datos"
  let ?p = "\<lambda>b :: byte. real (count_list datos b) / real ?n"
  have n: "0 < ?n" using assms by simp
  have "entropia_de datos = (\<Sum>b \<in> (UNIV :: byte set). - termino ?n (count_list datos b))"
    by (simp add: entropia_de_suma sum_negf)
  also have "\<dots> \<le> (\<Sum>b \<in> (UNIV :: byte set). 8 * ?p b + (1 / 256 - ?p b) / ln 2)"
    by (intro sum_mono termino_cota [OF n])
  also have "\<dots> = 8 * (\<Sum>b \<in> (UNIV :: byte set). ?p b)
                   + (real (card (UNIV :: byte set)) / 256 - (\<Sum>b \<in> (UNIV :: byte set). ?p b)) / ln 2"
    by (simp only: sum.distrib sum_distrib_left [symmetric] sum_divide_distrib [symmetric]
          sum_subtractf sum_constant) simp
  also have "\<dots> = 8"
    by (simp only: suma_frecuencias [OF assms] card_byte) simp
  finally show ?thesis .
qed

lemma count_list_replicate_byte:
  "count_list (replicate n b) c = (if c = b then n else 0)"
  by (induction n) auto

lemma entropia_de_replicate: "entropia_de (replicate n (b :: byte)) = 0"
proof -
  have "\<And>c :: byte. termino (length (replicate n b)) (count_list (replicate n b) c) = 0"
    by (simp add: count_list_replicate_byte termino_def)
  then show ?thesis by (simp add: entropia_de_suma)
qed

lemma log2_inv_256: "log 2 (1 / 256) = - 8"
proof -
  have "log 2 (1 / 256) = - log 2 256"
    by (simp add: log_divide)
  then show ?thesis by (simp only: log2_256)
qed

lemma entropia_de_uno_de_cada:
  assumes "\<forall>b :: byte. count_list datos b = 1"
  shows "length datos = 256 \<and> entropia_de datos = 8"
proof -
  have "length datos = (\<Sum>b \<in> (UNIV :: byte set). count_list datos b)"
    by (simp only: suma_cuentas)
  also have "\<dots> = (\<Sum>b \<in> (UNIV :: byte set). 1)" using assms by simp
  also have "\<dots> = 256" by (simp add: card_byte)
  finally have l: "length datos = 256" .
  have t: "termino 256 1 = - (1 / 32)"
    unfolding termino_def using log2_inv_256 by simp
  have "entropia_de datos = - (\<Sum>b \<in> (UNIV :: byte set). termino 256 1)"
    using assms l by (simp only: entropia_de_suma)
  also have "\<dots> = 8" by (simp only: t sum_constant card_byte)
  finally show ?thesis using l by simp
qed

lemma distinct_count_list_1:
  "distinct xs \<Longrightarrow> x \<in> set xs \<Longrightarrow> count_list xs x = 1"
  by (induction xs) (auto simp: count_list_0_iff)

lemma inj_on_of_nat_byte: "inj_on (of_nat :: nat \<Rightarrow> byte) {0..<256}"
proof (rule inj_onI)
  fix x y :: nat
  assume b: "x \<in> {0..<256}" "y \<in> {0..<256}" and e: "(of_nat x :: byte) = of_nat y"
  from b have u: "unat (of_nat x :: byte) = x" "unat (of_nat y :: byte) = y"
    by (simp_all add: unat_of_nat)
  from e have "unat (of_nat x :: byte) = unat (of_nat y :: byte)" by (rule arg_cong)
  then show "x = y" by (simp only: u)
qed

lemma todos_los_bytes_cuenta: "count_list todos_los_bytes b = 1"
proof -
  have d: "distinct todos_los_bytes"
    unfolding todos_los_bytes_def
    by (simp only: distinct_map distinct_upt set_upt inj_on_of_nat_byte simp_thms)
  have "b = of_nat (unat b)" by simp
  moreover have "unat b \<in> set [0..<256]" using unat_byte_lt [of b] by simp
  ultimately have "b \<in> set todos_los_bytes"
    unfolding todos_los_bytes_def by (metis imageI set_map)
  with d show ?thesis by (rule distinct_count_list_1)
qed

lemma todos_los_bytes_length: "length todos_los_bytes = 256"
  by (simp add: todos_los_bytes_def)

text \<open>
  Claim C6. For every non-empty prefix read, the estimator returns the Shannon entropy
  of the prefix: minus the sum, over the byte values that occur, of \<open>p * log2 p\<close> with
  \<open>p\<close> the count of the value divided by the length of the prefix. The value lies
  between 0 and 8; it is 0 when all bytes are the same, and 8 when every byte value
  occurs exactly once (the prefix then has length 256). Floats are reals here.
\<close>

theorem calcular_entropia_shannon:
  assumes "leer f MAX_BYTES_LECTURA = Inr datos" and "datos \<noteq> []"
  shows "calcular_entropia f = Some (shannon datos)
         \<and> 0 \<le> shannon datos \<and> shannon datos \<le> 8
         \<and> ((\<exists>n b. datos = replicate n b) \<longrightarrow> calcular_entropia f = Some 0)
         \<and> ((\<forall>b. count_list datos b = 1) \<longrightarrow>
               length datos = 256 \<and> calcular_entropia f = Some 8)"
proof -
  have c: "calcular_entropia f = Some (entropia_de datos)"
    using assms by (simp add: calcular_entropia_def)
  have s: "calcular_entropia f = Some (shannon datos)"
    using c by (simp only: entropia_de_shannon)
  have lo: "0 \<le> shannon datos"
    using entropia_de_no_negativa [of datos] by (simp only: entropia_de_shannon)
  have hi: "shannon datos \<le> 8"
    using entropia_de_cota [OF assms(2)] by (simp only: entropia_de_shannon)
  have r: "(\<exists>n b. datos = replicate n b) \<longrightarrow> calcular_entropia f = Some 0"
    using c entropia_de_replicate by auto
  have u: "(\<forall>b. count_list datos b = 1) \<longrightarrow>
               length datos = 256 \<and> calcular_entropia f = Some 8"
    using c entropia_de_uno_de_cada [of datos] by auto
  from s lo hi r u show ?thesis by (intro conjI)
qed

theorem calcular_entropia_shannon_witness:
  "leer \<lparr>lectura = Inr [65], st_size = Inr 1\<rparr> MAX_BYTES_LECTURA = Inr [65]
   \<and> calcular_entropia \<lparr>lectura = Inr [65], st_size = Inr 1\<rparr> = Some 0
   \<and> leer \<lparr>lectura = Inr todos_los_bytes, st_size = Inr 256\<rparr> MAX_BYTES_LECTURA
       = Inr todos_los_bytes
   \<and> calcular_entropia \<lparr>lectura = Inr todos_los_bytes, st_size = Inr 256\<rparr> = Some 8"
proof -
  have a: "leer \<lparr>lectura = Inr [65], st_size = Inr 1\<rparr> MAX_BYTES_LECTURA = Inr [65]"
    by (simp add: leer_def MAX_BYTES_LECTURA_def)
  have "\<exists>n b. [65 :: byte] = replicate n b"
    by (rule exI [of _ 1], rule exI [of _ 65]) simp
  with calcular_entropia_shannon [OF a]
  have b: "calcular_entropia \<lparr>lectura = Inr [65], st_size = Inr 1\<rparr> = Some 0"
    by blast
  have t: "leer \<lparr>lectura = Inr todos_los_bytes, st_size = Inr 256\<rparr> MAX_BYTES_LECTURA
             = Inr todos_los_bytes"
    by (simp add: leer_def MAX_BYTES_LECTURA_def todos_los_bytes_length)
  have ne: "todos_los_bytes \<noteq> []"
    using todos_los_bytes_length by auto
  from calcular_entropia_shannon [OF t ne] todos_los_bytes_cuenta
  have d: "calcular_entropia \<lparr>lectura = Inr todos_los_bytes, st_size = Inr 256\<rparr> = Some 8"
    by blast
  from a b t d show ?thesis by (intro conjI)
qed

end
